theory Spec2Isabelle
  imports Complex_Main
begin

section \<open>Time splatting trainer: tensors, errors and the population store\<close>

text \<open>
  The model follows \<^verbatim>\<open>src/time-splatting/train.py\<close>. Tensors hold real numbers
  (the arithmetic of the formulas, not IEEE rounding). A one-dimensional tensor of shape
  \<^verbatim>\<open>[N]\<close> is a list; a tensor of shape \<^verbatim>\<open>[N, k]\<close> is the list of its \<open>N\<close> rows.
  Exceptions of the source are values of type \<open>error\<close>.
\<close>

datatype error =
    KeyError string
  | NameError string
  | TypeError string
  | ValueError string
  | AssertionError string
  | RuntimeError string
  | AttributeError string
  | IndexError
  | ZeroDivisionError

text \<open>
  The \<^verbatim>\<open>ParameterDict\<close> built by \<^verbatim>\<open>create_splats_with_optimizers\<close>: seven groups for
  every population and \<^verbatim>\<open>time_anisos\<close> for the shading population only.
\<close>

record param_dict =
  means :: "real list list"
  scales :: "real list list"
  quats :: "real list list"
  opacities :: "real list"
  times_p :: "real list list"
  time_scales :: "real list list"
  colors :: "real list list"
  time_anisos :: "real list list option"

subsection \<open>Broadcasting elementwise operations\<close>

text \<open>
  Two dimensions are compatible when they are equal or one of them is 1; any other pair
  of sizes makes torch raise a \<^verbatim>\<open>RuntimeError\<close>.
\<close>

definition broadcast :: "('a \<Rightarrow> 'b \<Rightarrow> 'c) \<Rightarrow> 'a list \<Rightarrow> 'b list \<Rightarrow> error + 'c list" where
  "broadcast f xs ys =
     (if length xs = length ys then Inr (map2 f xs ys)
      else if length xs = 1 then Inr (map (f (hd xs)) ys)
      else if length ys = 1 then Inr (map (\<lambda>x. f x (hd ys)) xs)
      else Inl (RuntimeError ''The size of tensor a must match the size of tensor b''))"

fun sequence :: "(error + 'a) list \<Rightarrow> error + 'a list" where
  "sequence [] = Inr []"
| "sequence (x # xs) =
     (case x of
        Inl e \<Rightarrow> Inl e
      | Inr v \<Rightarrow> (case sequence xs of Inl e \<Rightarrow> Inl e | Inr vs \<Rightarrow> Inr (v # vs)))"

definition broadcast_rows ::
  "(real \<Rightarrow> real \<Rightarrow> real) \<Rightarrow> real list list \<Rightarrow> real list list \<Rightarrow> error + real list list" where
  "broadcast_rows f A B =
     (case broadcast (broadcast f) A B of Inl e \<Rightarrow> Inl e | Inr rs \<Rightarrow> sequence rs)"

definition sigmoid :: "real \<Rightarrow> real" where
  "sigmoid x = 1 / (1 + exp (- x))"

subsection \<open>\<^verbatim>\<open>Runner.rasterize_splats\<close>: what is handed to the rasterizer\<close>

record raster_args =
  r_means :: "real list list"
  r_quats :: "real list list"
  r_scales :: "real list list"
  r_opacities :: "real list"
  r_colors :: "real list list"

text \<open>
  \<^verbatim>\<open>time_delta = times[None, ...] - time_means\<close>: the query vector gets a leading
  dimension of size 1 and is broadcast against every row of \<^verbatim>\<open>time_means\<close>.
\<close>

definition time_delta :: "real list \<Rightarrow> real list list \<Rightarrow> error + real list list" where
  "time_delta ts time_means = sequence (map (\<lambda>m. broadcast (\<lambda>a b. a - b) ts m) time_means)"

text \<open>
  \<^verbatim>\<open>time_alpha = exp(-0.5 * (time_delta * time_delta).sum(dim=-1))\<close> after the division by
  \<^verbatim>\<open>exp(time_scales)\<close>. The block that would multiply \<^verbatim>\<open>time_delta\<close> by the Cholesky factor
  built from \<^verbatim>\<open>time_anisos\<close> is a string literal in the source, so
  \<^verbatim>\<open>time_anisotropic = time_delta\<close>.
\<close>

definition time_alpha :: "param_dict \<Rightarrow> real list \<Rightarrow> error + real list" where
  "time_alpha s ts =
     (case time_delta ts (times_p s) of
        Inl e \<Rightarrow> Inl e
      | Inr time_anisotropic \<Rightarrow>
          (case broadcast_rows (\<lambda>a b. a / b) time_anisotropic (map (map exp) (time_scales s)) of
             Inl e \<Rightarrow> Inl e
           | Inr delta \<Rightarrow> Inr (map (\<lambda>r. exp (- 0.5 * sum_list (map (\<lambda>x. x * x) r))) delta)))"

text \<open>
  The arguments of the call to the rasterizer. With \<^verbatim>\<open>cfg.app_opt\<close> the colours would
  come from the appearance module applied to \<^verbatim>\<open>self.splats["features"]\<close>, a group that
  no population has; the opacities are computed before that lookup. The field \<^verbatim>\<open>times\<close>
  of the population is called \<open>times_p\<close> here.
\<close>

definition rasterize_splats_args :: "bool \<Rightarrow> param_dict \<Rightarrow> real list \<Rightarrow> error + raster_args" where
  "rasterize_splats_args app_opt s ts =
     (case time_alpha s ts of
        Inl e \<Rightarrow> Inl e
      | Inr alpha \<Rightarrow>
          (case broadcast (\<lambda>a b. a * b) (map sigmoid (opacities s)) alpha of
             Inl e \<Rightarrow> Inl e
           | Inr ops \<Rightarrow>
               if app_opt then Inl (KeyError ''features'')
               else Inr \<lparr> r_means = means s, r_quats = quats s,
                          r_scales = map (map exp) (scales s),
                          r_opacities = ops,
                          r_colors = map (map sigmoid) (colors s) \<rparr>))"


section \<open>Configuration and construction of the runner\<close>

text \<open>
  The density-control variant: \<^verbatim>\<open>Union[DefaultStrategy, MCMCStrategy]\<close>. The strategy
  classes themselves belong to the \<^verbatim>\<open>gsplat\<close> library.
\<close>

datatype strategy = DefaultStrategy | MCMCStrategy

text \<open>The fields of \<^verbatim>\<open>Config\<close> that the modelled code reads.\<close>

record config =
  ckpt :: "string list option"
  compression :: "string option"
  max_steps :: int
  eval_steps :: "int list"
  save_steps :: "int list"
  use_shading :: bool
  strategy :: strategy
  shading_strategy :: strategy
  packed :: bool
  sparse_grad :: bool
  visible_adam :: bool
  means_lr :: real
  scales_lr :: real
  opacities_lr :: real
  quats_lr :: real
  sh0_lr :: real
  app_opt :: bool
  app_opt_lr :: real
  use_bilagrid :: bool
  lpips_net :: string
  disable_viewer :: bool

datatype optimizer_class = SparseAdam | SelectiveAdam | Adam

record optimizer =
  opt_class :: optimizer_class
  opt_name :: string
  opt_lr :: real

text \<open>
  \<^verbatim>\<open>create_splats_with_optimizers\<close>. The initial arrays are random draws (positions,
  colours, orientations, time labels of the dataset); the model receives them as
  \<open>drawn\<close> and keeps what the function fixes itself: the list of named groups with their
  learning rates, the zero-initialised \<^verbatim>\<open>time_anisos\<close> of the shading population (\<open>d\<close> is
  1 + 2 columns there, so \<open>d * (d - 1) div 2\<close> columns), and the optimizer class.
\<close>

definition params :: "config \<Rightarrow> real \<Rightarrow> bool \<Rightarrow> (string \<times> real) list" where
  "params c scene_scale shading =
     [(''means'', means_lr c * scene_scale),
      (''scales'', scales_lr c),
      (''quats'', quats_lr c),
      (''opacities'', opacities_lr c),
      (''times'', means_lr c * scene_scale),
      (''time_scales'', scales_lr c),
      (''colors'', sh0_lr c)]
     @ (if shading then [(''time_anisos'', quats_lr c)] else [])"

definition optimizer_class_of :: "config \<Rightarrow> optimizer_class" where
  "optimizer_class_of c =
     (if sparse_grad c then SparseAdam else if visible_adam c then SelectiveAdam else Adam)"

definition create_splats_with_optimizers ::
  "config \<Rightarrow> real \<Rightarrow> bool \<Rightarrow> param_dict \<Rightarrow> param_dict \<times> optimizer list" where
  "create_splats_with_optimizers c scene_scale shading drawn =
     (let N = length (means drawn);
          d = 1 + 2;
          triu_len = d * (d - 1) div 2;
          splats = drawn \<lparr> time_anisos :=
                     (if shading then Some (replicate N (replicate triu_len 0)) else None) \<rparr>
      in (splats,
          map (\<lambda>(name, lr). \<lparr> opt_class = optimizer_class_of c, opt_name = name, opt_lr = lr \<rparr>)
              (params c scene_scale shading)))"

text \<open>
  The keys of a \<^verbatim>\<open>ParameterDict\<close> in insertion order, and its \<^verbatim>\<open>state_dict()\<close>.
\<close>

datatype tensor = Vec "real list" | Mat "real list list"

definition state_dict :: "param_dict \<Rightarrow> (string \<times> tensor) list" where
  "state_dict s =
     [(''means'', Mat (means s)),
      (''scales'', Mat (scales s)),
      (''quats'', Mat (quats s)),
      (''opacities'', Vec (opacities s)),
      (''times'', Mat (times_p s)),
      (''time_scales'', Mat (time_scales s)),
      (''colors'', Mat (colors s))]
     @ (case time_anisos s of None \<Rightarrow> [] | Some a \<Rightarrow> [(''time_anisos'', Mat a)])"

definition keys :: "param_dict \<Rightarrow> string list" where
  "keys s = map fst (state_dict s)"

text \<open>
  The two methods of the library's strategy objects that \<^verbatim>\<open>Runner.__init__\<close> calls are
  parameters of the model: \<^verbatim>\<open>check_sanity(params, optimizers)\<close>, given the key lists, and
  \<^verbatim>\<open>initialize_state\<close>, given the receiver and the \<^verbatim>\<open>scene_scale\<close> keyword when the call
  passes one.
\<close>

record 'st collaborators =
  check_sanity :: "strategy \<Rightarrow> string list \<Rightarrow> string list \<Rightarrow> error + unit"
  initialize_state :: "strategy \<Rightarrow> real option \<Rightarrow> error + 'st"

text \<open>
  The library as its signatures read: \<^verbatim>\<open>DefaultStrategy.initialize_state(scene_scale=1.0)\<close>,
  \<^verbatim>\<open>MCMCStrategy.initialize_state()\<close> without parameters, and a sanity check that wants
  one optimizer per parameter group and the four geometric groups. Used to run the model
  on concrete configurations.
\<close>

datatype strategy_state = DefaultState real | MCMCState

definition gsplat :: "strategy_state collaborators" where
  "gsplat = \<lparr>
     check_sanity = (\<lambda>_ ks os.
        if set ks = set os \<and> set [''means'', ''scales'', ''quats'', ''opacities''] \<subseteq> set ks
        then Inr () else Inl (AssertionError ''check_sanity'')),
     initialize_state = (\<lambda>s kw.
        case (s, kw) of
          (DefaultStrategy, Some sc) \<Rightarrow> Inr (DefaultState sc)
        | (DefaultStrategy, None) \<Rightarrow> Inr (DefaultState 1)
        | (MCMCStrategy, None) \<Rightarrow> Inr MCMCState
        | (MCMCStrategy, Some _) \<Rightarrow>
            Inl (TypeError ''initialize_state() got an unexpected keyword argument scene_scale'')) \<rparr>"

text \<open>\<^verbatim>\<open>self.scene_scale = 1.1\<close>.\<close>

definition scene_scale :: real where
  "scene_scale = 1.1"

text \<open>
  The two dispatches of \<^verbatim>\<open>Runner.__init__\<close> on the variant, as the call each one makes:
  the receiver and the \<^verbatim>\<open>scene_scale\<close> keyword. Both test \<^verbatim>\<open>self.cfg.strategy\<close>; the second
  calls \<^verbatim>\<open>self.cfg.shading_strategy.initialize_state\<close>. The \<^verbatim>\<open>assert_never\<close> branches are
  not reachable for a value of the two-variant type.
\<close>

definition strategy_state_call :: "config \<Rightarrow> strategy \<times> real option" where
  "strategy_state_call c =
     (case strategy c of
        DefaultStrategy \<Rightarrow> (strategy c, Some scene_scale)
      | MCMCStrategy \<Rightarrow> (strategy c, None))"

definition shading_strategy_state_call :: "config \<Rightarrow> strategy \<times> real option" where
  "shading_strategy_state_call c =
     (case strategy c of
        DefaultStrategy \<Rightarrow> (shading_strategy c, Some scene_scale)
      | MCMCStrategy \<Rightarrow> (shading_strategy c, None))"

datatype compression_method = PngCompression

definition compression_strategy :: "config \<Rightarrow> error + compression_method option" where
  "compression_strategy c =
     (case compression c of
        None \<Rightarrow> Inr None
      | Some name \<Rightarrow>
          if name = ''png'' then Inr (Some PngCompression)
          else Inl (ValueError (''Unknown compression strategy: '' @ name)))"

record 'st runner =
  cfg :: config
  splats :: param_dict
  optimizers :: "optimizer list"
  shading_splats :: "param_dict option"
  shading_optimizers :: "optimizer list"
  strategy_state :: 'st
  shading_strategy_state :: "'st option"
  compression_method :: "compression_method option"
  app_module :: "(string \<times> tensor) list option"
  app_optimizers :: "optimizer list"
  bil_grid_optimizers :: "optimizer list"

definition bind :: "error + 'a \<Rightarrow> ('a \<Rightarrow> error + 'b) \<Rightarrow> error + 'b" where
  "bind m f = (case m of Inl e \<Rightarrow> Inl e | Inr v \<Rightarrow> f v)"

text \<open>
  \<^verbatim>\<open>Runner.__init__\<close>, in the order of the source. First the albedo population and
  its sanity check, the shading population and its sanity check, and the two controller
  states.
\<close>

definition init_controllers ::
  "'st collaborators \<Rightarrow> config \<Rightarrow> param_dict \<Rightarrow> param_dict
   \<Rightarrow> error + (param_dict \<times> optimizer list) \<times> (param_dict \<times> optimizer list) \<times> 'st \<times> 'st option"
  where
  "init_controllers lib c drawn drawn_shading =
     (let (sp, opts) = create_splats_with_optimizers c scene_scale False drawn in
      bind (check_sanity lib (strategy c) (keys sp) (map opt_name opts)) (\<lambda>_.
      let (ssp, sopts) = create_splats_with_optimizers c scene_scale True drawn_shading in
      bind (if use_shading c
            then check_sanity lib (shading_strategy c) (keys ssp) (map opt_name sopts)
            else Inr ()) (\<lambda>_.
      bind (initialize_state lib (fst (strategy_state_call c)) (snd (strategy_state_call c)))
        (\<lambda>st.
      bind (if use_shading c
            then bind (initialize_state lib (fst (shading_strategy_state_call c))
                         (snd (shading_strategy_state_call c))) (\<lambda>sst. Inr (Some sst))
            else Inr None) (\<lambda>sst.
      Inr ((sp, opts), (ssp, sopts), st, sst))))))"

text \<open>
  Then the compression codec, the appearance module (whose branch reads the undefined
  name \<^verbatim>\<open>feature_dim\<close>), the bilateral grid optimizer and the LPIPS network name.
\<close>

definition Runner_init ::
  "'st collaborators \<Rightarrow> config \<Rightarrow> param_dict \<Rightarrow> param_dict \<Rightarrow> error + 'st runner" where
  "Runner_init lib c drawn drawn_shading =
     bind (init_controllers lib c drawn drawn_shading) (\<lambda>((sp, opts), (ssp, sopts), st, sst).
     bind (compression_strategy c) (\<lambda>cm.
     bind (if app_opt c then Inl (NameError ''feature_dim'') else Inr ()) (\<lambda>_.
     bind (if lpips_net c = ''alex'' \<or> lpips_net c = ''vgg'' then Inr ()
           else Inl (ValueError (''Unknown LPIPS network: '' @ lpips_net c))) (\<lambda>_.
     Inr \<lparr> cfg = c, splats = sp, optimizers = opts,
           shading_splats = (if use_shading c then Some ssp else None),
           shading_optimizers = (if use_shading c then sopts else []),
           strategy_state = st, shading_strategy_state = sst,
           compression_method = cm, app_module = None, app_optimizers = [],
           bil_grid_optimizers =
             (if use_bilagrid c
              then [\<lparr> opt_class = Adam, opt_name = ''bil_grids'', opt_lr = 2 / 1000 \<rparr>]
              else []) \<rparr>))))"

section \<open>The training loop\<close>

subsection \<open>Learning-rate schedules\<close>

text \<open>
  The schedulers of \<^verbatim>\<open>torch.optim.lr_scheduler\<close> that \<^verbatim>\<open>Runner.train\<close> builds, each with
  the optimizer whose learning rate it drives.
\<close>

datatype lr_kind =
    ExponentialLR real
  | LinearLR real nat
  | ChainedScheduler "lr_kind list"

record scheduler =
  sched_optimizer :: optimizer
  sched_kind :: lr_kind

definition lookup_optimizer :: "optimizer list \<Rightarrow> string \<Rightarrow> error + optimizer" where
  "lookup_optimizer os name =
     (case find (\<lambda>opt. opt_name opt = name) os of
        None \<Rightarrow> Inl (KeyError name)
      | Some opt \<Rightarrow> Inr opt)"

text \<open>\<^verbatim>\<open>gamma=0.01 ** (1.0 / max_steps)\<close>; the division raises when \<^verbatim>\<open>max_steps\<close> is 0.\<close>

definition decay_gamma :: "int \<Rightarrow> error + real" where
  "decay_gamma n =
     (if n = 0 then Inl ZeroDivisionError else Inr ((1 / 100) powr (1 / real_of_int n)))"

definition make_schedulers :: "'st runner \<Rightarrow> error + scheduler list" where
  "make_schedulers r =
     bind (lookup_optimizer (optimizers r) ''means'') (\<lambda>m.
     bind (decay_gamma (max_steps (cfg r))) (\<lambda>g.
     if use_bilagrid (cfg r)
     then (case bil_grid_optimizers r of
             [] \<Rightarrow> Inl IndexError
           | b # _ \<Rightarrow>
               Inr [\<lparr> sched_optimizer = m, sched_kind = ExponentialLR g \<rparr>,
                    \<lparr> sched_optimizer = b,
                      sched_kind = ChainedScheduler [LinearLR (1 / 100) 1000, ExponentialLR g] \<rparr>])
     else Inr [\<lparr> sched_optimizer = m, sched_kind = ExponentialLR g \<rparr>]))"

text \<open>
  What the library's schedulers compute, in their closed forms: after \<open>k\<close> calls of
  \<^verbatim>\<open>step()\<close> an exponential schedule has multiplied the initial rate by \<open>gamma ^ k\<close>, a
  linear one by \<open>start_factor + (1 - start_factor) * min k total_iters / total_iters\<close>, and a chain by the product
  of its members' factors.
\<close>

fun lr_factor :: "lr_kind \<Rightarrow> nat \<Rightarrow> real" where
  "lr_factor (ExponentialLR gamma) k = gamma ^ k"
| "lr_factor (LinearLR start_factor total_iters) k =
     start_factor + (1 - start_factor) * real (min k total_iters) / real total_iters"
| "lr_factor (ChainedScheduler ss) k = prod_list (map (\<lambda>s. lr_factor s k) ss)"

definition get_last_lr :: "scheduler \<Rightarrow> nat \<Rightarrow> real" where
  "get_last_lr s k = opt_lr (sched_optimizer s) * lr_factor (sched_kind s) k"

subsection \<open>One iteration, from the rasterizer's statistics on\<close>

text \<open>
  The forward render, the loss and the backward pass belong to the rasterizer and the
  data loader; an iteration is modelled from their outputs: the statistics bundles
  \<^verbatim>\<open>info\<close> and \<^verbatim>\<open>shading_info\<close>. Without packed mode \<^verbatim>\<open>radii\<close> has shape \<^verbatim>\<open>[C, N, 2]\<close>;
  packed mode adds \<^verbatim>\<open>gaussian_ids\<close>. Calls into the optimizers, the schedulers and the
  controllers are recorded as events, in the order the source makes them; an exception
  ends the trace.
\<close>

record info =
  radii :: "int list list list"
  gaussian_ids :: "nat list option"

datatype population = Albedo | Shading

datatype ckpt_value = StepValue nat | StateDict "(string \<times> tensor) list"

datatype post_kwargs = Packed bool | Lr real

datatype event =
    StepPreBackward population info
  | Backward
  | SaveCheckpoint "(string \<times> ckpt_value) list"
  | SparseGrads
  | OptimizerStep population string "bool list option"
  | ZeroGrad population string
  | AuxOptimizerStep string
  | AuxZeroGrad string
  | SchedulerStep nat
  | StepPostBackward population strategy info post_kwargs

type_synonym outcome = "event list \<times> error option"

definition emit :: "event list \<Rightarrow> outcome" where
  "emit es = (es, None)"

definition abort :: "error \<Rightarrow> outcome" where
  "abort e = ([], Some e)"

definition seq :: "outcome \<Rightarrow> outcome \<Rightarrow> outcome" where
  "seq a b = (case snd a of Some e \<Rightarrow> a | None \<Rightarrow> (fst a @ fst b, snd b))"

text \<open>
  \<^verbatim>\<open>step in [i - 1 for i in cfg.save_steps] or step == max_steps - 1\<close>, and the record
  handed to \<^verbatim>\<open>torch.save\<close>.
\<close>

definition is_save_step :: "config \<Rightarrow> nat \<Rightarrow> bool" where
  "is_save_step c step \<longleftrightarrow>
     int step \<in> set (map (\<lambda>i. i - 1) (save_steps c)) \<or> int step = max_steps c - 1"

definition checkpoint_data :: "'st runner \<Rightarrow> nat \<Rightarrow> error + (string \<times> ckpt_value) list" where
  "checkpoint_data r step =
     (let data = [(''step'', StepValue step), (''splats'', StateDict (state_dict (splats r)))]
      in if app_opt (cfg r)
         then (case app_module r of
                 None \<Rightarrow> Inl (AttributeError ''app_module'')
               | Some m \<Rightarrow> Inr (data @ [(''app_module'', StateDict m)]))
         else Inr data)"

definition save_checkpoint :: "'st runner \<Rightarrow> nat \<Rightarrow> outcome" where
  "save_checkpoint r step =
     (if is_save_step (cfg r) step
      then (case checkpoint_data r step of
              Inl e \<Rightarrow> abort e
            | Inr data \<Rightarrow> emit [SaveCheckpoint data])
      else emit [])"

text \<open>\<^verbatim>\<open>assert cfg.packed, "Sparse gradients only work with packed mode."\<close>\<close>

definition sparse_gradients :: "config \<Rightarrow> outcome" where
  "sparse_gradients c =
     (if sparse_grad c
      then (if packed c then emit [SparseGrads]
            else abort (AssertionError ''Sparse gradients only work with packed mode.''))
      else emit [])"

text \<open>
  The visibility mask of \<^verbatim>\<open>visible_adam\<close>: in packed mode a zero mask over the albedo
  opacities with the entries at \<^verbatim>\<open>info["gaussian_ids"]\<close> set, otherwise
  \<^verbatim>\<open>(info["radii"] > 0).all(-1).any(0)\<close>. The training loader has batch size 1, so
  \<^verbatim>\<open>radii\<close> has at least one camera row.
\<close>

definition any0 :: "bool list list \<Rightarrow> bool list" where
  "any0 rows = (case rows of [] \<Rightarrow> [] | r # rs \<Rightarrow> foldl (\<lambda>a b. map2 (\<or>) a b) r rs)"

definition visibility_mask :: "'st runner \<Rightarrow> info \<Rightarrow> error + bool list option" where
  "visibility_mask r info =
     (if visible_adam (cfg r)
      then (if packed (cfg r)
            then (case gaussian_ids info of
                    None \<Rightarrow> Inl (TypeError ''gaussian_ids'')
                  | Some ids \<Rightarrow>
                      let n = length (opacities (splats r)) in
                      if list_all (\<lambda>i. i < n) ids
                      then Inr (Some (fold (\<lambda>i m. m[i := True]) ids (replicate n False)))
                      else Inl (RuntimeError ''index out of bounds''))
            else Inr (Some (any0 (map (map (list_all (\<lambda>x. 0 < x))) (radii info)))))
      else Inr None)"

text \<open>
  \<^verbatim>\<open>optimizer.step(visibility_mask)\<close> or \<^verbatim>\<open>optimizer.step()\<close>, then
  \<^verbatim>\<open>optimizer.zero_grad\<close>, for every optimizer of a dictionary in order.
\<close>

definition optimize :: "population \<Rightarrow> optimizer list \<Rightarrow> bool list option \<Rightarrow> event list" where
  "optimize p os vis_mask =
     concat (map (\<lambda>opt. [OptimizerStep p (opt_name opt) vis_mask, ZeroGrad p (opt_name opt)]) os)"

definition optimize_aux :: "optimizer list \<Rightarrow> event list" where
  "optimize_aux os =
     concat (map (\<lambda>opt. [AuxOptimizerStep (opt_name opt), AuxZeroGrad (opt_name opt)]) os)"

text \<open>
  The dispatch on the variant after the optimizers: the threshold variant receives
  \<^verbatim>\<open>packed\<close>, the relocation variant \<^verbatim>\<open>lr=schedulers[0].get_last_lr()[0]\<close>.
\<close>

definition step_post_backward ::
  "population \<Rightarrow> strategy \<Rightarrow> config \<Rightarrow> scheduler list \<Rightarrow> nat \<Rightarrow> info \<Rightarrow> outcome" where
  "step_post_backward p s c scheds epoch info =
     (case s of
        DefaultStrategy \<Rightarrow> emit [StepPostBackward p s info (Packed (packed c))]
      | MCMCStrategy \<Rightarrow>
          (case scheds of
             [] \<Rightarrow> abort IndexError
           | s0 # _ \<Rightarrow> emit [StepPostBackward p s info (Lr (get_last_lr s0 epoch))]))"

text \<open>
  One pass of the loop body of \<^verbatim>\<open>Runner.train\<close>; \<open>last_epoch\<close> counts the calls of
  \<^verbatim>\<open>scheduler.step()\<close> made so far.
\<close>

definition train_step ::
  "'st runner \<Rightarrow> scheduler list \<Rightarrow> nat \<Rightarrow> nat \<Rightarrow> info \<Rightarrow> info \<Rightarrow> outcome" where
  "train_step r scheds last_epoch step info shading_info =
     (let c = cfg r in
      seq (emit ([StepPreBackward Albedo info]
                 @ (if use_shading c then [StepPreBackward Shading shading_info] else [])
                 @ [Backward]))
     (seq (save_checkpoint r step)
     (seq (sparse_gradients c)
     (case visibility_mask r info of
        Inl e \<Rightarrow> abort e
      | Inr vis_mask \<Rightarrow>
          seq (emit (optimize Albedo (optimizers r) vis_mask
                     @ optimize_aux (app_optimizers r)
                     @ optimize_aux (bil_grid_optimizers r)
                     @ (if use_shading c then optimize Shading (shading_optimizers r) vis_mask else [])
                     @ map SchedulerStep [0..<length scheds]))
         (seq (step_post_backward Albedo (strategy c) c scheds (Suc last_epoch) info)
              (if use_shading c
               then step_post_backward Shading (shading_strategy c) c scheds (Suc last_epoch)
                      shading_info
               else emit []))))))"

text \<open>
  The events between the sparse conversion and the controllers: every optimizer step with
  its gradient reset, then one advance of every schedule. \<open>is_update\<close> recognises them.
\<close>

definition update_events :: "'st runner \<Rightarrow> scheduler list \<Rightarrow> bool list option \<Rightarrow> event list" where
  "update_events r scheds m =
     optimize Albedo (optimizers r) m
     @ optimize_aux (app_optimizers r)
     @ optimize_aux (bil_grid_optimizers r)
     @ (if use_shading (cfg r) then optimize Shading (shading_optimizers r) m else [])
     @ map SchedulerStep [0..<length scheds]"

fun is_update :: "event \<Rightarrow> bool" where
  "is_update (OptimizerStep _ _ _) = True"
| "is_update (ZeroGrad _ _) = True"
| "is_update (AuxOptimizerStep _) = True"
| "is_update (AuxZeroGrad _) = True"
| "is_update (SchedulerStep _) = True"
| "is_update _ = False"

subsection \<open>The loop and the entry point\<close>

text \<open>
  The optimizers change the populations between iterations and the rasterizer produces
  new statistics; \<open>env k\<close> gives the populations and statistics of iteration \<open>k\<close>.
\<close>

record step_env =
  env_splats :: param_dict
  env_shading_splats :: "param_dict option"
  env_info :: info
  env_shading_info :: info

fun train_loop ::
  "'st runner \<Rightarrow> scheduler list \<Rightarrow> (nat \<Rightarrow> step_env) \<Rightarrow> nat \<Rightarrow> nat \<Rightarrow> outcome" where
  "train_loop r scheds env step 0 = emit []"
| "train_loop r scheds env step (Suc n) =
     seq (train_step (r \<lparr> splats := env_splats (env step),
                          shading_splats := env_shading_splats (env step) \<rparr>)
            scheds step step (env_info (env step)) (env_shading_info (env step)))
         (train_loop r scheds env (Suc step) n)"

definition train :: "'st runner \<Rightarrow> (nat \<Rightarrow> step_env) \<Rightarrow> outcome" where
  "train r env =
     (case make_schedulers r of
        Inl e \<Rightarrow> abort e
      | Inr scheds \<Rightarrow> train_loop r scheds env 0 (nat (max_steps (cfg r))))"

text \<open>
  \<^verbatim>\<open>main\<close>: the runner is constructed first; with \<^verbatim>\<open>cfg.ckpt\<close> set the run only
  evaluates (no training event), otherwise it trains.
\<close>

definition main ::
  "'st collaborators \<Rightarrow> config \<Rightarrow> param_dict \<Rightarrow> param_dict \<Rightarrow> (nat \<Rightarrow> step_env) \<Rightarrow> outcome" where
  "main lib c drawn drawn_shading env =
     (case Runner_init lib c drawn drawn_shading of
        Inl e \<Rightarrow> abort e
      | Inr r \<Rightarrow> (case ckpt c of Some _ \<Rightarrow> emit [] | None \<Rightarrow> train r env))"

section \<open>Compositing the shading render\<close>

text \<open>
  Images are lists of pixels, a pixel the list of its channels: the albedo render has
  three channels, the shading render and its coverage one. In \<^verbatim>\<open>Runner.train\<close>:
  \<^verbatim>\<open>colors = colors * shading_colors\<close>. In \<^verbatim>\<open>Runner.eval\<close>:
  \<^verbatim>\<open>shading_colors = shading_colors + bkgd * (1.0 - shading_alphas)\<close> with
  \<^verbatim>\<open>bkgd = torch.ones(1, 3)\<close>, then the product, then \<^verbatim>\<open>torch.clamp(colors, 0.0, 1.0)\<close>.
\<close>

definition train_shading_composite ::
  "real list list \<Rightarrow> real list list \<Rightarrow> error + real list list" where
  "train_shading_composite cols shading_colors =
     broadcast_rows (\<lambda>a b. a * b) cols shading_colors"

definition eval_shading_composite ::
  "real list list \<Rightarrow> real list list \<Rightarrow> real list list \<Rightarrow> error + real list list" where
  "eval_shading_composite cols shading_colors shading_alphas =
     bind (broadcast_rows (\<lambda>a b. a * b) [[1, 1, 1]] (map (map (\<lambda>a. 1 - a)) shading_alphas))
       (\<lambda>white.
     bind (broadcast_rows (\<lambda>a b. a + b) shading_colors white) (\<lambda>shading_colors'.
     broadcast_rows (\<lambda>a b. a * b) cols shading_colors'))"

definition clamp_colors :: "real list list \<Rightarrow> real list list" where
  "clamp_colors cols = map (map (\<lambda>x. min 1 (max 0 x))) cols"

text \<open>A one-primitive population with \<open>d = 1\<close>, used to instantiate the theorems below.\<close>

definition example_splats :: param_dict where
  "example_splats = \<lparr> means = [[0, 0, 0]], scales = [[0, 0, 0]], quats = [[1, 0, 0, 0]],
     opacities = [0], times_p = [[0]], time_scales = [[0]], colors = [[0, 0, 0]],
     time_anisos = None \<rparr>"

text \<open>
  A configuration with both populations, the relocation variant for both controllers and
  \<^verbatim>\<open>visible_adam\<close>; the runner that \<open>Runner_init\<close> builds from it with one primitive per
  population; its schedulers; and statistics bundles with given screen radii.
\<close>

definition example_shading_splats :: param_dict where
  "example_shading_splats = \<lparr> means = [[0, 0, 0]], scales = [[0, 0, 0]], quats = [[1, 0, 0, 0]],
     opacities = [0], times_p = [[0, 0, 0]], time_scales = [[0, 0, 0]], colors = [[0]],
     time_anisos = None \<rparr>"

definition example_config :: config where
  "example_config = \<lparr> ckpt = None, compression = None, max_steps = 2, eval_steps = [],
     save_steps = [1], use_shading = True, strategy = MCMCStrategy,
     shading_strategy = MCMCStrategy, packed = False, sparse_grad = False,
     visible_adam = True, means_lr = 16 / 100000, scales_lr = 5 / 1000,
     opacities_lr = 5 / 100, quats_lr = 1 / 1000, sh0_lr = 25 / 10000, app_opt = False,
     app_opt_lr = 1 / 1000, use_bilagrid = True, lpips_net = ''alex'', disable_viewer = True \<rparr>"

definition example_optimizers :: "optimizer_class \<Rightarrow> bool \<Rightarrow> optimizer list" where
  "example_optimizers cls shading =
     map (\<lambda>(name, lr). \<lparr> opt_class = cls, opt_name = name, opt_lr = lr \<rparr>)
       ([(''means'', 16 / 100000 * scene_scale), (''scales'', 5 / 1000), (''quats'', 1 / 1000),
         (''opacities'', 5 / 100), (''times'', 16 / 100000 * scene_scale),
         (''time_scales'', 5 / 1000), (''colors'', 25 / 10000)]
        @ (if shading then [(''time_anisos'', 1 / 1000)] else []))"

definition example_runner :: "config \<Rightarrow> strategy_state runner" where
  "example_runner c = \<lparr> cfg = c, splats = example_splats,
     optimizers = example_optimizers (optimizer_class_of c) False,
     shading_splats = Some (example_shading_splats \<lparr> time_anisos := Some [[0, 0, 0]] \<rparr>),
     shading_optimizers = example_optimizers (optimizer_class_of c) True,
     strategy_state = MCMCState, shading_strategy_state = Some MCMCState,
     compression_method = None, app_module = None, app_optimizers = [],
     bil_grid_optimizers = [\<lparr> opt_class = Adam, opt_name = ''bil_grids'', opt_lr = 2 / 1000 \<rparr>] \<rparr>"

definition example_info :: "int list list list \<Rightarrow> info" where
  "example_info r = \<lparr> radii = r, gaussian_ids = None \<rparr>"

definition example_schedulers :: "scheduler list" where
  "example_schedulers =
     [\<lparr> sched_optimizer = \<lparr> opt_class = SelectiveAdam, opt_name = ''means'',
                             opt_lr = 16 / 100000 * scene_scale \<rparr>,
        sched_kind = ExponentialLR ((1 / 100) powr (1 / 2)) \<rparr>,
      \<lparr> sched_optimizer = \<lparr> opt_class = Adam, opt_name = ''bil_grids'', opt_lr = 2 / 1000 \<rparr>,
        sched_kind = ChainedScheduler [LinearLR (1 / 100) 1000,
                                       ExponentialLR ((1 / 100) powr (1 / 2))] \<rparr>]"

text \<open>
  A checkpoint record holds a population when one of its entries is that population's
  \<^verbatim>\<open>state_dict()\<close>. \<open>is_shading_step\<close> selects the optimizer steps of the shading
  population from a trace.
\<close>

definition ckpt_holds_population :: "(string \<times> ckpt_value) list \<Rightarrow> param_dict \<Rightarrow> bool" where
  "ckpt_holds_population data s = list_ex (\<lambda>kv. snd kv = StateDict (state_dict s)) data"

definition is_shading_step :: "event \<Rightarrow> bool" where
  "is_shading_step e = (case e of OptimizerStep Shading _ _ \<Rightarrow> True | _ \<Rightarrow> False)"

text \<open>The populations and statistics that the example run sees at every iteration.\<close>

definition example_env :: "nat \<Rightarrow> step_env" where
  "example_env k = \<lparr> env_splats = example_splats,
     env_shading_splats = Some (example_shading_splats \<lparr> time_anisos := Some [[0, 0, 0]] \<rparr>),
     env_info = example_info [[[1, 1]]], env_shading_info = example_info [[[0, 0]]] \<rparr>"

text \<open>
  \<open>is_ckpt\<close> selects the checkpoint writes of a trace. The second example runner has the
  appearance module switched on and a module state to save.
\<close>

fun is_ckpt :: "event \<Rightarrow> bool" where
  "is_ckpt (SaveCheckpoint _) = True"
| "is_ckpt _ = False"

definition example_app_runner :: "strategy_state runner" where
  "example_app_runner =
     (example_runner (example_config \<lparr> app_opt := True \<rparr>))
       \<lparr> app_module := Some [(''embeds'', Mat [[0]])] \<rparr>"

section \<open>The temporal kernel\<close>



lemma sequence_map_Inr:
  "(\<And>x. x \<in> set xs \<Longrightarrow> f x = Inr (g x)) \<Longrightarrow> sequence (map f xs) = Inr (map g xs)"
  by (induction xs) auto

lemma sequence_Inr [simp]: "sequence (map Inr xs) = Inr xs"
  by (induction xs) auto

lemma broadcast_same_length:
  "length xs = length ys \<Longrightarrow> broadcast f xs ys = Inr (map2 f xs ys)"
  by (simp add: broadcast_def)

lemma time_delta_rect:
  assumes "\<And>m. m \<in> set M \<Longrightarrow> length m = length ts"
  shows "time_delta ts M = Inr (map (\<lambda>m. map2 (\<lambda>a b. a - b) ts m) M)"
  unfolding time_delta_def
  by (rule sequence_map_Inr) (simp add: broadcast_same_length assms)

lemma broadcast_rows_rect:
  assumes "length A = length B"
    and "\<And>i. i < length A \<Longrightarrow> length (A ! i) = length (B ! i)"
  shows "broadcast_rows f A B = Inr (map2 (\<lambda>a b. map2 f a b) A B)"
proof -
  have h: "map2 (broadcast f) A B = map Inr (map2 (\<lambda>a b. map2 f a b) A B)"
    using assms by (intro nth_equalityI) (simp_all add: broadcast_same_length)
  show ?thesis
    unfolding broadcast_rows_def broadcast_same_length [OF assms(1)] h
    by (simp only: sum.case sequence_Inr)
qed

lemma sum_list_squares:
  assumes "length m = length ts" "length ls = length ts"
  shows "sum_list (map (\<lambda>x. x * x) (map2 (\<lambda>a b. a / b) (map2 (\<lambda>a b. a - b) ts m) (map exp ls)))
       = (\<Sum>j<length ts. ((ts ! j - m ! j) / exp (ls ! j))\<^sup>2)"
  using assms by (simp add: sum_list_sum_nth power2_eq_square atLeast0LessThan)

lemma time_alpha_rect:
  assumes "length (times_p s) = length (time_scales s)"
    and "\<And>m. m \<in> set (times_p s) \<Longrightarrow> length m = length ts"
    and "\<And>l. l \<in> set (time_scales s) \<Longrightarrow> length l = length ts"
  shows "time_alpha s ts =
         Inr (map2 (\<lambda>m ls. exp (- 0.5 * (\<Sum>j<length ts. ((ts ! j - m ! j) / exp (ls ! j))\<^sup>2)))
                (times_p s) (time_scales s))"
proof -
  have td: "time_delta ts (times_p s) = Inr (map (\<lambda>m. map2 (\<lambda>a b. a - b) ts m) (times_p s))"
    by (rule time_delta_rect) (rule assms(2))
  have br: "broadcast_rows (\<lambda>a b. a / b) (map (\<lambda>m. map2 (\<lambda>a b. a - b) ts m) (times_p s))
              (map (map exp) (time_scales s))
          = Inr (map2 (\<lambda>a b. map2 (\<lambda>a b. a / b) a b)
                  (map (\<lambda>m. map2 (\<lambda>a b. a - b) ts m) (times_p s)) (map (map exp) (time_scales s)))"
    by (rule broadcast_rows_rect) (simp_all add: assms)
  have "map (\<lambda>r. exp (- 0.5 * sum_list (map (\<lambda>x. x * x) r)))
          (map2 (\<lambda>a b. map2 (\<lambda>a b. a / b) a b)
                  (map (\<lambda>m. map2 (\<lambda>a b. a - b) ts m) (times_p s)) (map (map exp) (time_scales s)))
      = map2 (\<lambda>m ls. exp (- 0.5 * (\<Sum>j<length ts. ((ts ! j - m ! j) / exp (ls ! j))\<^sup>2)))
                (times_p s) (time_scales s)" (is "?L = ?R")
  proof (rule nth_equalityI)
    show "length ?L = length ?R" by simp
  next
    fix i assume "i < length ?L"
    then have i: "i < length (times_p s)" "i < length (time_scales s)" by simp_all
    then have "length (times_p s ! i) = length ts" "length (time_scales s ! i) = length ts"
      using assms(2,3) by simp_all
    from sum_list_squares [OF this] i show "?L ! i = ?R ! i"
      by simp
  qed
  then show ?thesis
    by (simp add: time_alpha_def td br)
qed


lemma sigmoid_pos: "0 < sigmoid x"
  by (simp add: sigmoid_def add_pos_pos)

lemma rasterize_splats_args_rect:
  assumes "length (opacities s) = length (times_p s)"
    and "length (times_p s) = length (time_scales s)"
    and "\<And>m. m \<in> set (times_p s) \<Longrightarrow> length m = length ts"
    and "\<And>l. l \<in> set (time_scales s) \<Longrightarrow> length l = length ts"
  shows "rasterize_splats_args False s ts =
         Inr \<lparr> r_means = means s, r_quats = quats s, r_scales = map (map exp) (scales s),
               r_opacities = map2 (\<lambda>a b. a * b) (map sigmoid (opacities s))
                 (map2 (\<lambda>m ls. exp (- 0.5 * (\<Sum>j<length ts. ((ts ! j - m ! j) / exp (ls ! j))\<^sup>2)))
                    (times_p s) (time_scales s)),
               r_colors = map (map sigmoid) (colors s) \<rparr>"
  using assms(1,2)
  by (simp add: rasterize_splats_args_def time_alpha_rect [OF assms(2,3,4)] broadcast_same_length)

lemma kernel_sum_zero_iff:
  assumes "length m = length ts"
  shows "(\<Sum>j<length ts. ((ts ! j - m ! j) / exp (ls ! j))\<^sup>2) = 0 \<longleftrightarrow> ts = (m :: real list)"
proof -
  have "(\<Sum>j<length ts. ((ts ! j - m ! j) / exp (ls ! j))\<^sup>2) = 0
        \<longleftrightarrow> (\<forall>j\<in>{..<length ts}. ((ts ! j - m ! j) / exp (ls ! j))\<^sup>2 = 0)"
    by (rule sum_nonneg_eq_0_iff) simp_all
  also have "\<dots> \<longleftrightarrow> (\<forall>j<length ts. ts ! j = m ! j)"
    by auto
  also have "\<dots> \<longleftrightarrow> ts = m"
    using assms by (auto intro: nth_equalityI)
  finally show ?thesis .
qed

lemma kernel_sum_update:
  assumes "j < length ts"
  shows "(\<Sum>k<length ts. (((ts[j := x]) ! k - m ! k) / exp (ls ! k))\<^sup>2)
       = (\<Sum>k<length ts. ((ts ! k - m ! k) / exp (ls ! k))\<^sup>2)
         - ((ts ! j - m ! j) / exp (ls ! j))\<^sup>2 + ((x - m ! j) / exp (ls ! j :: real))\<^sup>2"
proof -
  let ?f = "\<lambda>t k. ((t ! k - m ! k) / exp (ls ! k))\<^sup>2"
  have fin: "finite {..<length ts}" and mem: "j \<in> {..<length ts}" using assms by simp_all
  have a: "sum (?f (ts[j := x])) {..<length ts}
         = ?f (ts[j := x]) j + sum (?f (ts[j := x])) ({..<length ts} - {j})"
    by (rule sum.remove [OF fin mem])
  have b: "sum (?f ts) {..<length ts} = ?f ts j + sum (?f ts) ({..<length ts} - {j})"
    by (rule sum.remove [OF fin mem])
  have c: "sum (?f (ts[j := x])) ({..<length ts} - {j}) = sum (?f ts) ({..<length ts} - {j})"
    by (rule sum.cong) auto
  show ?thesis using a b c assms by simp
qed

lemma normalized_deviation_square:
  assumes "\<bar>a\<bar> / exp l < \<bar>b\<bar> / exp (l :: real)"
  shows "(a / exp l)\<^sup>2 < (b / exp l)\<^sup>2"
proof -
  have "\<bar>a / exp l\<bar>\<^sup>2 < \<bar>b / exp l\<bar>\<^sup>2"
    by (rule power_strict_mono) (use assms in simp_all)
  then show ?thesis by (simp add: power_divide)
qed



text \<open>
  C1: for a population whose arrays share the length \<open>N\<close> and whose temporal arrays have
  \<open>d\<close> columns, and a query vector of length \<open>d\<close>, the opacity handed to the rasterizer
  for primitive \<open>i\<close> is \<open>sigmoid(logitOpacity\<^sub>i) * exp(-0.5 * \<Sum>\<^sub>j ((t\<^sub>j - timeMean\<^sub>i\<^sub>j) / exp(logTimeScale\<^sub>i\<^sub>j))\<^sup>2)\<close>;
  it equals \<open>sigmoid(logitOpacity\<^sub>i)\<close> exactly when \<open>t = timeMean\<^sub>i\<close>, and it strictly
  decreases when one coordinate's normalized absolute deviation grows and the other
  coordinates stay fixed.
\<close>

theorem rasterize_splats_opacity:
  assumes "length (opacities s) = N" and "length (times_p s) = N"
    and "length (time_scales s) = N"
    and "\<forall>m\<in>set (times_p s). length m = d"
    and "\<forall>l\<in>set (time_scales s). length l = d"
    and "length ts = d" and "i < N"
  shows "\<exists>a. rasterize_splats_args False s ts = Inr a \<and> length (r_opacities a) = N
      \<and> r_opacities a ! i = sigmoid (opacities s ! i)
            * exp (- 0.5 * (\<Sum>j<d. ((ts ! j - times_p s ! i ! j) / exp (time_scales s ! i ! j))\<^sup>2))
      \<and> (r_opacities a ! i = sigmoid (opacities s ! i) \<longleftrightarrow> ts = times_p s ! i)
      \<and> (\<forall>j<d. \<forall>x. \<bar>ts ! j - times_p s ! i ! j\<bar> / exp (time_scales s ! i ! j)
                      < \<bar>x - times_p s ! i ! j\<bar> / exp (time_scales s ! i ! j)
            \<longrightarrow> (\<exists>a'. rasterize_splats_args False s (ts[j := x]) = Inr a'
                  \<and> r_opacities a' ! i < r_opacities a ! i))"
proof -
  let ?m = "times_p s ! i" and ?l = "time_scales s ! i"
  let ?S = "\<lambda>t. (\<Sum>j<d. ((t ! j - ?m ! j) / exp (?l ! j))\<^sup>2)"
  let ?ops = "\<lambda>t. map2 (\<lambda>a b. a * b) (map sigmoid (opacities s))
                 (map2 (\<lambda>m ls. exp (- 0.5 * (\<Sum>j<length t. ((t ! j - m ! j) / exp (ls ! j))\<^sup>2)))
                    (times_p s) (time_scales s))"
  have run: "rasterize_splats_args False s t =
         Inr \<lparr> r_means = means s, r_quats = quats s, r_scales = map (map exp) (scales s),
               r_opacities = ?ops t, r_colors = map (map sigmoid) (colors s) \<rparr>"
    if "length t = d" for t
    by (rule rasterize_splats_args_rect) (use assms that in simp_all)
  have nth: "?ops t ! i = sigmoid (opacities s ! i) * exp (- 0.5 * ?S t)" if "length t = d" for t
    using assms that by simp
  have lm: "length ?m = length ts" using assms by simp
  have one: "sigmoid (opacities s ! i) * exp (- 0.5 * ?S ts) = sigmoid (opacities s ! i)
             \<longleftrightarrow> ts = ?m"
  proof -
    have "sigmoid (opacities s ! i) * exp (- 0.5 * ?S ts) = sigmoid (opacities s ! i)
          \<longleftrightarrow> exp (- 0.5 * ?S ts) = 1"
      using sigmoid_pos [of "opacities s ! i"] by simp
    also have "\<dots> \<longleftrightarrow> ?S ts = 0" by simp
    also have "\<dots> \<longleftrightarrow> ts = ?m"
      using kernel_sum_zero_iff [OF lm, of ?l] assms(6) by simp
    finally show ?thesis .
  qed
  have mono: "sigmoid (opacities s ! i) * exp (- 0.5 * ?S (ts[j := x]))
              < sigmoid (opacities s ! i) * exp (- 0.5 * ?S ts)"
    if "j < d" and "\<bar>ts ! j - ?m ! j\<bar> / exp (?l ! j) < \<bar>x - ?m ! j\<bar> / exp (?l ! j)" for j x
  proof -
    have "?S (ts[j := x]) = ?S ts - ((ts ! j - ?m ! j) / exp (?l ! j))\<^sup>2
            + ((x - ?m ! j) / exp (?l ! j))\<^sup>2"
      using kernel_sum_update [of j ts x ?m ?l] that(1) assms(6) by simp
    moreover have "((ts ! j - ?m ! j) / exp (?l ! j))\<^sup>2 < ((x - ?m ! j) / exp (?l ! j))\<^sup>2"
      by (rule normalized_deviation_square) (rule that(2))
    ultimately have "?S ts < ?S (ts[j := x])" by simp
    then have "exp (- 0.5 * ?S (ts[j := x])) < exp (- 0.5 * ?S ts)" by simp
    then show ?thesis using sigmoid_pos [of "opacities s ! i"] by simp
  qed
  show ?thesis
  proof (intro exI conjI allI impI)
    show "rasterize_splats_args False s ts = Inr \<lparr> r_means = means s, r_quats = quats s,
            r_scales = map (map exp) (scales s), r_opacities = ?ops ts,
            r_colors = map (map sigmoid) (colors s) \<rparr>"
      by (rule run) (rule assms(6))
  next
    fix j x assume "j < d"
      and "\<bar>ts ! j - ?m ! j\<bar> / exp (?l ! j) < \<bar>x - ?m ! j\<bar> / exp (?l ! j)"
    then show "r_opacities \<lparr> r_means = means s, r_quats = quats s,
            r_scales = map (map exp) (scales s), r_opacities = ?ops (ts[j := x]),
            r_colors = map (map sigmoid) (colors s) \<rparr> ! i
          < r_opacities \<lparr> r_means = means s, r_quats = quats s,
            r_scales = map (map exp) (scales s), r_opacities = ?ops ts,
            r_colors = map (map sigmoid) (colors s) \<rparr> ! i"
      using mono [of j x] nth [of ts] nth [of "ts[j := x]"] assms(6) by simp
  next
    fix j x assume "j < d"
    show "rasterize_splats_args False s (ts[j := x]) = Inr \<lparr> r_means = means s, r_quats = quats s,
            r_scales = map (map exp) (scales s), r_opacities = ?ops (ts[j := x]),
            r_colors = map (map sigmoid) (colors s) \<rparr>"
      by (rule run) (simp add: assms(6))
  qed (use assms nth [of ts] one in simp_all)
qed

theorem rasterize_splats_opacity_witness:
  "length (opacities example_splats) = 1 \<and> length (times_p example_splats) = 1
   \<and> length (time_scales example_splats) = 1
   \<and> list_all (\<lambda>m. length m = 1) (times_p example_splats)
   \<and> list_all (\<lambda>l. length l = 1) (time_scales example_splats)
   \<and> (\<exists>a a'. rasterize_splats_args False example_splats [0] = Inr a
          \<and> r_opacities a ! 0 = 1 / 2
          \<and> rasterize_splats_args False example_splats [1] = Inr a'
          \<and> r_opacities a' ! 0 < r_opacities a ! 0)"
proof -
  have h: "length (opacities example_splats) = 1" "length (times_p example_splats) = 1"
    "length (time_scales example_splats) = 1"
    "\<forall>m\<in>set (times_p example_splats). length m = 1"
    "\<forall>l\<in>set (time_scales example_splats). length l = 1"
    "length [0 :: real] = 1" "(0 :: nat) < 1"
    by (simp_all add: example_splats_def)
  from rasterize_splats_opacity [OF h]
  obtain a where a: "rasterize_splats_args False example_splats [0] = Inr a"
    and v: "r_opacities a ! 0 = sigmoid (opacities example_splats ! 0)
            * exp (- 0.5 * (\<Sum>j<1. (([0] ! j - times_p example_splats ! 0 ! j)
                 / exp (time_scales example_splats ! 0 ! j))\<^sup>2))"
    and m: "\<forall>j<1. \<forall>x. \<bar>[0] ! j - times_p example_splats ! 0 ! j\<bar>
                 / exp (time_scales example_splats ! 0 ! j)
               < \<bar>x - times_p example_splats ! 0 ! j\<bar> / exp (time_scales example_splats ! 0 ! j)
            \<longrightarrow> (\<exists>a'. rasterize_splats_args False example_splats ([0][j := x]) = Inr a'
                  \<and> r_opacities a' ! 0 < r_opacities a ! 0)"
    by blast
  from m [rule_format, of 0 1]
  obtain a' where "rasterize_splats_args False example_splats [1] = Inr a'"
    and "r_opacities a' ! 0 < r_opacities a ! 0"
    by (auto simp: example_splats_def)
  moreover have "r_opacities a ! 0 = 1 / 2"
    using v by (simp add: example_splats_def sigmoid_def)
  ultimately show ?thesis using h a by (auto simp: list_all_iff)
qed


section \<open>Traces of one iteration\<close>

lemma snd_seq_None: "snd (seq a b) = None \<longleftrightarrow> snd a = None \<and> snd b = None"
  by (cases a; cases b) (auto simp: seq_def split: option.splits)

lemma fst_seq_ok: "snd a = None \<Longrightarrow> fst (seq a b) = fst a @ fst b"
  by (simp add: seq_def)

lemma seq_abort: "snd a = Some e \<Longrightarrow> seq a b = a"
  by (simp add: seq_def)

lemma emit_simps [simp]: "fst (emit es) = es" "snd (emit es) = None"
  by (simp_all add: emit_def)

lemma abort_simps [simp]: "fst (abort e) = []" "snd (abort e) = Some e"
  by (simp_all add: abort_def)

lemma train_step_success:
  assumes "snd (train_step r scheds n k info shading_info) = None"
  shows "\<exists>m. visibility_mask r info = Inr m
      \<and> snd (save_checkpoint r k) = None \<and> snd (sparse_gradients (cfg r)) = None
      \<and> snd (step_post_backward Albedo (strategy (cfg r)) (cfg r) scheds (Suc n) info) = None
      \<and> fst (train_step r scheds n k info shading_info) =
          ([StepPreBackward Albedo info]
            @ (if use_shading (cfg r) then [StepPreBackward Shading shading_info] else [])
            @ [Backward])
          @ fst (save_checkpoint r k)
          @ fst (sparse_gradients (cfg r))
          @ update_events r scheds m
          @ fst (step_post_backward Albedo (strategy (cfg r)) (cfg r) scheds (Suc n) info)
          @ (if use_shading (cfg r)
             then fst (step_post_backward Shading (shading_strategy (cfg r)) (cfg r) scheds
                         (Suc n) shading_info)
             else [])"
proof (cases "visibility_mask r info")
  case (Inl e)
  with assms show ?thesis
    by (simp add: train_step_def Let_def snd_seq_None)
next
  case (Inr m)
  with assms show ?thesis
    by (simp add: train_step_def Let_def snd_seq_None fst_seq_ok update_events_def)
qed

lemma save_checkpoint_no_update: "filter is_update (fst (save_checkpoint r k)) = []"
  by (simp add: save_checkpoint_def split: sum.splits)

lemma sparse_gradients_no_update: "filter is_update (fst (sparse_gradients c)) = []"
  by (simp add: sparse_gradients_def)

lemma step_post_backward_no_update:
  "filter is_update (fst (step_post_backward p s c scheds e i)) = []"
  by (simp add: step_post_backward_def split: strategy.splits list.splits)

lemma optimize_all_updates: "filter is_update (optimize p os m) = optimize p os m"
  by (induction os) (simp_all add: optimize_def)

lemma optimize_aux_all_updates: "filter is_update (optimize_aux os) = optimize_aux os"
  by (induction os) (simp_all add: optimize_aux_def)

lemma scheduler_steps_all_updates:
  "filter is_update (map SchedulerStep ks) = map SchedulerStep ks"
  by (induction ks) simp_all

lemma update_events_all_updates:
  "filter is_update (update_events r scheds m) = update_events r scheds m"
  by (simp add: update_events_def optimize_all_updates optimize_aux_all_updates
      scheduler_steps_all_updates)

lemma make_schedulers_head:
  assumes "make_schedulers r = Inr scheds"
  shows "\<exists>m rest. lookup_optimizer (optimizers r) ''means'' = Inr m
       \<and> max_steps (cfg r) \<noteq> 0
       \<and> scheds = \<lparr> sched_optimizer = m,
                     sched_kind = ExponentialLR ((1 / 100) powr (1 / real_of_int (max_steps (cfg r)))) \<rparr>
                  # rest"
  using assms
  by (auto simp: make_schedulers_def bind_def decay_gamma_def
      split: sum.splits if_splits list.splits)

lemma example_runner_init:
  "Runner_init gsplat example_config example_splats example_shading_splats
   = Inr (example_runner example_config)"
  by (simp add: Runner_init_def init_controllers_def gsplat_def example_config_def example_splats_def
      example_shading_splats_def example_runner_def example_optimizers_def
      create_splats_with_optimizers_def params_def optimizer_class_of_def bind_def keys_def
      state_dict_def strategy_state_call_def shading_strategy_state_call_def
      compression_strategy_def)

lemma example_make_schedulers:
  "make_schedulers (example_runner example_config) = Inr example_schedulers"
  by (simp add: make_schedulers_def example_runner_def example_config_def
      example_optimizers_def optimizer_class_of_def lookup_optimizer_def bind_def
      decay_gamma_def example_schedulers_def)

lemma example_train_step_ok:
  "snd (train_step (example_runner example_config) example_schedulers 0 0
          (example_info [[[1, 1]]]) (example_info [[[0, 0]]])) = None"
  by (simp add: train_step_def Let_def snd_seq_None example_runner_def example_config_def
      save_checkpoint_def is_save_step_def checkpoint_data_def sparse_gradients_def
      visibility_mask_def step_post_backward_def example_schedulers_def)

text \<open>
  C5: in an iteration that runs to its end, the relocation variant's
  \<^verbatim>\<open>step_post_backward\<close> comes after every optimizer step, every gradient reset and the
  advance of every schedule, and its \<^verbatim>\<open>lr\<close> argument is what the exponential schedule of
  the albedo \<^verbatim>\<open>means\<close> optimizer reports after that advance: the optimizer's initial rate
  times \<open>gamma ^ (last_epoch + 1)\<close>. This holds for the albedo controller and, with
  shading, for the shading controller.
\<close>

theorem step_post_backward_after_updates:
  assumes "snd (train_step r scheds n k info shading_info) = None"
    and "make_schedulers r = Inr scheds"
  shows "\<exists>m vm lr. lookup_optimizer (optimizers r) ''means'' = Inr m
      \<and> visibility_mask r info = Inr vm
      \<and> lr = opt_lr m * ((1 / 100) powr (1 / real_of_int (max_steps (cfg r)))) ^ Suc n
      \<and> lr = get_last_lr (hd scheds) (Suc n)
      \<and> (strategy (cfg r) = MCMCStrategy \<longrightarrow>
           (\<exists>pre post. fst (train_step r scheds n k info shading_info)
                = pre @ StepPostBackward Albedo MCMCStrategy info (Lr lr) # post
              \<and> filter is_update pre = update_events r scheds vm
              \<and> filter is_update post = []))
      \<and> (use_shading (cfg r) \<and> shading_strategy (cfg r) = MCMCStrategy \<longrightarrow>
           (\<exists>pre. fst (train_step r scheds n k info shading_info)
                = pre @ [StepPostBackward Shading MCMCStrategy shading_info (Lr lr)]
              \<and> filter is_update pre = update_events r scheds vm))"
proof -
  from make_schedulers_head [OF assms(2)]
  obtain m rest where m: "lookup_optimizer (optimizers r) ''means'' = Inr m"
    and scheds: "scheds = \<lparr> sched_optimizer = m,
        sched_kind = ExponentialLR ((1 / 100) powr (1 / real_of_int (max_steps (cfg r)))) \<rparr> # rest"
    by blast
  let ?lr = "opt_lr m * ((1 / 100) powr (1 / real_of_int (max_steps (cfg r)))) ^ Suc n"
  have lr: "get_last_lr (hd scheds) (Suc n) = ?lr"
    by (simp add: scheds get_last_lr_def)
  have post: "step_post_backward p MCMCStrategy (cfg r) scheds (Suc n) i
            = emit [StepPostBackward p MCMCStrategy i (Lr ?lr)]" for p i
    by (simp add: step_post_backward_def scheds get_last_lr_def)
  from train_step_success [OF assms(1)]
  obtain vm where vm: "visibility_mask r info = Inr vm"
    and tr: "fst (train_step r scheds n k info shading_info) =
          ([StepPreBackward Albedo info]
            @ (if use_shading (cfg r) then [StepPreBackward Shading shading_info] else [])
            @ [Backward])
          @ fst (save_checkpoint r k)
          @ fst (sparse_gradients (cfg r))
          @ update_events r scheds vm
          @ fst (step_post_backward Albedo (strategy (cfg r)) (cfg r) scheds (Suc n) info)
          @ (if use_shading (cfg r)
             then fst (step_post_backward Shading (shading_strategy (cfg r)) (cfg r) scheds
                         (Suc n) shading_info)
             else [])"
    by blast
  let ?pre = "([StepPreBackward Albedo info]
            @ (if use_shading (cfg r) then [StepPreBackward Shading shading_info] else [])
            @ [Backward])
          @ fst (save_checkpoint r k)
          @ fst (sparse_gradients (cfg r))
          @ update_events r scheds vm"
  have pre: "filter is_update ?pre = update_events r scheds vm"
    by (simp add: save_checkpoint_no_update sparse_gradients_no_update
        update_events_all_updates)
  have albedo: "\<exists>pre post. fst (train_step r scheds n k info shading_info)
                = pre @ StepPostBackward Albedo MCMCStrategy info (Lr ?lr) # post
              \<and> filter is_update pre = update_events r scheds vm
              \<and> filter is_update post = []" if "strategy (cfg r) = MCMCStrategy"
  proof (intro exI conjI)
    show "fst (train_step r scheds n k info shading_info)
        = ?pre @ StepPostBackward Albedo MCMCStrategy info (Lr ?lr)
          # (if use_shading (cfg r)
             then fst (step_post_backward Shading (shading_strategy (cfg r)) (cfg r) scheds
                         (Suc n) shading_info)
             else [])"
      unfolding tr that post by simp
    show "filter is_update ?pre = update_events r scheds vm" by (rule pre)
    show "filter is_update (if use_shading (cfg r)
             then fst (step_post_backward Shading (shading_strategy (cfg r)) (cfg r) scheds
                         (Suc n) shading_info)
             else []) = []"
      by (simp add: step_post_backward_no_update)
  qed
  have shading: "\<exists>pre. fst (train_step r scheds n k info shading_info)
                = pre @ [StepPostBackward Shading MCMCStrategy shading_info (Lr ?lr)]
              \<and> filter is_update pre = update_events r scheds vm"
    if "use_shading (cfg r) \<and> shading_strategy (cfg r) = MCMCStrategy"
  proof (intro exI conjI)
    show "fst (train_step r scheds n k info shading_info)
        = (?pre @ fst (step_post_backward Albedo (strategy (cfg r)) (cfg r) scheds (Suc n) info))
          @ [StepPostBackward Shading MCMCStrategy shading_info (Lr ?lr)]"
      unfolding tr using that by (simp add: post)
    show "filter is_update
            (?pre @ fst (step_post_backward Albedo (strategy (cfg r)) (cfg r) scheds (Suc n) info))
          = update_events r scheds vm"
      using pre by (simp add: step_post_backward_no_update)
  qed
  show ?thesis
    apply (rule exI [of _ m], rule exI [of _ vm], rule exI [of _ ?lr])
    apply (intro conjI impI)
         apply (rule m)
        apply (rule vm)
       apply (rule refl)
      apply (rule lr [symmetric])
     apply (erule albedo)
    apply (erule shading)
    done
qed

theorem step_post_backward_after_updates_witness:
  "snd (train_step (example_runner example_config) example_schedulers 0 0
          (example_info [[[1, 1]]]) (example_info [[[0, 0]]])) = None
   \<and> make_schedulers (example_runner example_config) = Inr example_schedulers
   \<and> strategy (cfg (example_runner example_config)) = MCMCStrategy
   \<and> (\<exists>pre post.
         fst (train_step (example_runner example_config) example_schedulers 0 0
                (example_info [[[1, 1]]]) (example_info [[[0, 0]]]))
         = pre @ StepPostBackward Albedo MCMCStrategy (example_info [[[1, 1]]])
                   (Lr (16 / 100000 * scene_scale * (1 / 100) powr (1 / 2))) # post
         \<and> filter is_update post = [])"
proof -
  have s: "strategy (cfg (example_runner example_config)) = MCMCStrategy"
    and lk: "lookup_optimizer (optimizers (example_runner example_config)) ''means''
             = Inr \<lparr> opt_class = SelectiveAdam, opt_name = ''means'',
                     opt_lr = 16 / 100000 * scene_scale \<rparr>"
    and ms: "max_steps (cfg (example_runner example_config)) = 2"
    by (simp_all add: example_runner_def example_config_def lookup_optimizer_def
        example_optimizers_def optimizer_class_of_def)
  from step_post_backward_after_updates [OF example_train_step_ok example_make_schedulers]
  show ?thesis
    using example_train_step_ok example_make_schedulers s
    by (auto simp: lk ms)
qed

section \<open>Checkpoints\<close>

lemma filter_seq:
  "filter P (fst (seq a b)) = filter P (fst a) @ (if snd a = None then filter P (fst b) else [])"
  by (simp add: seq_def split: option.splits)

lemma optimize_no_ckpt: "filter is_ckpt (optimize p os m) = []"
  by (induction os) (simp_all add: optimize_def)

lemma optimize_aux_no_ckpt: "filter is_ckpt (optimize_aux os) = []"
  by (induction os) (simp_all add: optimize_aux_def)

lemma scheduler_steps_no_ckpt: "filter is_ckpt (map SchedulerStep ks) = []"
  by (induction ks) simp_all

lemma sparse_gradients_no_ckpt: "filter is_ckpt (fst (sparse_gradients c)) = []"
  by (simp add: sparse_gradients_def)

lemma step_post_backward_no_ckpt:
  "filter is_ckpt (fst (step_post_backward p s c scheds e i)) = []"
  by (simp add: step_post_backward_def split: strategy.splits list.splits)

lemma save_checkpoint_ckpts:
  "filter is_ckpt (fst (save_checkpoint r k))
   = (if is_save_step (cfg r) k
      then (case checkpoint_data r k of Inl _ \<Rightarrow> [] | Inr data \<Rightarrow> [SaveCheckpoint data])
      else [])"
  by (simp add: save_checkpoint_def split: sum.splits)

lemma train_step_ckpts:
  "filter is_ckpt (fst (train_step r scheds n k info shading_info))
   = filter is_ckpt (fst (save_checkpoint r k))"
  by (cases "visibility_mask r info")
    (simp_all add: train_step_def Let_def filter_seq optimize_no_ckpt optimize_aux_no_ckpt
      scheduler_steps_no_ckpt sparse_gradients_no_ckpt step_post_backward_no_ckpt)

lemma checkpoint_data_value:
  assumes "app_opt (cfg r) \<longrightarrow> app_module r = Some am"
  shows "checkpoint_data r k
       = Inr ([(''step'', StepValue k), (''splats'', StateDict (state_dict (splats r)))]
              @ (if app_opt (cfg r) then [(''app_module'', StateDict am)] else []))"
  using assms by (simp add: checkpoint_data_def)

lemma train_step_ckpts_value:
  assumes "app_opt (cfg r) \<longrightarrow> app_module r = Some am"
  shows "filter is_ckpt (fst (train_step r scheds n k info shading_info))
       = (if is_save_step (cfg r) k
          then [SaveCheckpoint
                  ([(''step'', StepValue k), (''splats'', StateDict (state_dict (splats r)))]
                   @ (if app_opt (cfg r) then [(''app_module'', StateDict am)] else []))]
          else [])"
  by (simp add: train_step_ckpts save_checkpoint_ckpts checkpoint_data_value [OF assms])

lemma train_loop_Suc_ckpts:
  "set (filter is_ckpt (fst (train_loop r scheds env k (Suc n))))
   \<subseteq> set (filter is_ckpt
            (fst (train_step (r \<lparr> splats := env_splats (env k),
                                 shading_splats := env_shading_splats (env k) \<rparr>)
                    scheds k k (env_info (env k)) (env_shading_info (env k)))))
     \<union> set (filter is_ckpt (fst (train_loop r scheds env (Suc k) n)))"
  by (simp only: train_loop.simps filter_seq) (simp only: set_append split: if_split, simp)

lemma train_loop_ckpts:
  assumes "app_opt (cfg r) \<longrightarrow> app_module r = Some am"
    and "SaveCheckpoint data \<in> set (fst (train_loop r scheds env k n))"
  shows "\<exists>j. k \<le> j \<and> j < k + n \<and> is_save_step (cfg r) j
       \<and> data = [(''step'', StepValue j),
                 (''splats'', StateDict (state_dict (env_splats (env j))))]
                @ (if app_opt (cfg r) then [(''app_module'', StateDict am)] else [])"
  using assms(2)
proof (induction n arbitrary: k)
  case 0
  then show ?case by simp
next
  case (Suc n)
  let ?r = "r \<lparr> splats := env_splats (env k), shading_splats := env_shading_splats (env k) \<rparr>"
  let ?a = "train_step ?r scheds k k (env_info (env k)) (env_shading_info (env k))"
  let ?D = "\<lambda>j. [(''step'', StepValue j),
                 (''splats'', StateDict (state_dict (env_splats (env j))))]
                @ (if app_opt (cfg r) then [(''app_module'', StateDict am)] else [])"
  from Suc.prems
  have "SaveCheckpoint data \<in> set (filter is_ckpt (fst (train_loop r scheds env k (Suc n))))"
    by (simp only: set_filter mem_Collect_eq is_ckpt.simps simp_thms)
  with train_loop_Suc_ckpts [of r scheds env k n]
  have "SaveCheckpoint data \<in> set (filter is_ckpt (fst ?a))
      \<or> SaveCheckpoint data \<in> set (filter is_ckpt (fst (train_loop r scheds env (Suc k) n)))"
    by blast
  then show ?case
  proof
    assume m: "SaveCheckpoint data \<in> set (filter is_ckpt (fst ?a))"
    have ao: "app_opt (cfg ?r) \<longrightarrow> app_module ?r = Some am"
      using assms(1) by simp
    have f: "filter is_ckpt (fst ?a)
        = (if is_save_step (cfg r) k then [SaveCheckpoint (?D k)] else [])"
      using train_step_ckpts_value [OF ao, of scheds k k "env_info (env k)"
          "env_shading_info (env k)"]
      by simp
    have sv: "is_save_step (cfg r) k"
    proof (rule ccontr)
      assume "\<not> is_save_step (cfg r) k"
      then have "filter is_ckpt (fst ?a) = []" by (simp only: f if_False)
      with m show False by (simp only: list.set empty_iff)
    qed
    then have "filter is_ckpt (fst ?a) = [SaveCheckpoint (?D k)]"
      by (simp only: f if_True)
    with m have "SaveCheckpoint data \<in> set [SaveCheckpoint (?D k)]"
      by (simp only:)
    then have "data = ?D k"
      by (simp only: list.set insert_iff empty_iff event.inject simp_thms)
    then have d: "data = ?D k" .
    have lt: "k < k + Suc n" by simp
    have c: "k \<le> k \<and> k < k + Suc n \<and> is_save_step (cfg r) k \<and> data = ?D k"
      by (intro conjI le_refl lt sv d)
    show ?thesis by (rule exI [where x = k]) (rule c)
  next
    assume "SaveCheckpoint data \<in> set (filter is_ckpt (fst (train_loop r scheds env (Suc k) n)))"
    then have "SaveCheckpoint data \<in> set (fst (train_loop r scheds env (Suc k) n))"
      by (simp only: set_filter mem_Collect_eq simp_thms)
    from Suc.IH [OF this] obtain j where j: "Suc k \<le> j \<and> j < Suc k + n
       \<and> is_save_step (cfg r) j \<and> data = ?D j" ..
    then have j1: "k \<le> j" and j2: "j < k + Suc n"
      and j3: "is_save_step (cfg r) j" and j4: "data = ?D j"
      by simp_all
    have c: "k \<le> j \<and> j < k + Suc n \<and> is_save_step (cfg r) j \<and> data = ?D j"
      by (intro conjI j1 j2 j3 j4)
    show ?thesis by (rule exI [where x = j]) (rule c)
  qed
qed

text \<open>
  C3, as amended: every checkpoint written during an iteration is written at a save
  step and is the one record holding the step index under \<^verbatim>\<open>step\<close>, the albedo
  population's named arrays (every group of that population) under \<^verbatim>\<open>splats\<close> and, when
  the appearance module is enabled, its parameters under \<^verbatim>\<open>app_module\<close>. An iteration
  that is not a save step writes none, and the same holds for every checkpoint written
  anywhere in the loop: the shading population's arrays are in no checkpoint.
\<close>

theorem checkpoint_albedo_only:
  assumes "app_opt (cfg r) \<longrightarrow> app_module r = Some am"
  shows "filter is_ckpt (fst (train_step r scheds n k info shading_info))
       = (if is_save_step (cfg r) k
          then [SaveCheckpoint
                  ([(''step'', StepValue k), (''splats'', StateDict (state_dict (splats r)))]
                   @ (if app_opt (cfg r) then [(''app_module'', StateDict am)] else []))]
          else [])
      \<and> map fst (state_dict (splats r))
          = [''means'', ''scales'', ''quats'', ''opacities'', ''times'', ''time_scales'',
             ''colors'']
            @ (case time_anisos (splats r) of None \<Rightarrow> [] | Some _ \<Rightarrow> [''time_anisos''])
      \<and> (\<forall>data first count.
            SaveCheckpoint data \<in> set (fst (train_loop r scheds env first count)) \<longrightarrow>
            (\<exists>j. first \<le> j \<and> j < first + count \<and> is_save_step (cfg r) j
               \<and> data = [(''step'', StepValue j),
                         (''splats'', StateDict (state_dict (env_splats (env j))))]
                        @ (if app_opt (cfg r) then [(''app_module'', StateDict am)] else [])))"
proof (intro conjI allI impI)
  show "filter is_ckpt (fst (train_step r scheds n k info shading_info))
       = (if is_save_step (cfg r) k
          then [SaveCheckpoint
                  ([(''step'', StepValue k), (''splats'', StateDict (state_dict (splats r)))]
                   @ (if app_opt (cfg r) then [(''app_module'', StateDict am)] else []))]
          else [])"
    by (simp add: train_step_ckpts save_checkpoint_ckpts checkpoint_data_value [OF assms])
  show "map fst (state_dict (splats r))
          = [''means'', ''scales'', ''quats'', ''opacities'', ''times'', ''time_scales'',
             ''colors'']
            @ (case time_anisos (splats r) of None \<Rightarrow> [] | Some _ \<Rightarrow> [''time_anisos''])"
    by (simp add: state_dict_def split: option.splits)
next
  fix data first count
  assume "SaveCheckpoint data \<in> set (fst (train_loop r scheds env first count))"
  from train_loop_ckpts [OF assms this]
  show "\<exists>j. first \<le> j \<and> j < first + count \<and> is_save_step (cfg r) j
               \<and> data = [(''step'', StepValue j),
                         (''splats'', StateDict (state_dict (env_splats (env j))))]
                        @ (if app_opt (cfg r) then [(''app_module'', StateDict am)] else [])" .
qed

theorem checkpoint_albedo_only_witness:
  "is_save_step (cfg (example_runner example_config)) 0
   \<and> \<not> app_opt (cfg (example_runner example_config))
   \<and> use_shading (cfg (example_runner example_config))
   \<and> filter is_ckpt
        (fst (train_step (example_runner example_config) example_schedulers 0 0
                (example_info [[[1, 1]]]) (example_info [[[0, 0]]])))
      = [SaveCheckpoint [(''step'', StepValue 0),
                         (''splats'', StateDict (state_dict example_splats))]]
   \<and> is_save_step (cfg example_app_runner) 0
   \<and> app_opt (cfg example_app_runner)
   \<and> app_module example_app_runner = Some [(''embeds'', Mat [[0]])]
   \<and> filter is_ckpt
        (fst (train_step example_app_runner example_schedulers 0 0
                (example_info [[[1, 1]]]) (example_info [[[0, 0]]])))
      = [SaveCheckpoint [(''step'', StepValue 0),
                         (''splats'', StateDict (state_dict example_splats)),
                         (''app_module'', StateDict [(''embeds'', Mat [[0]])])]]
   \<and> \<not> is_save_step (cfg (example_runner example_config)) 3
   \<and> filter is_ckpt
        (fst (train_step (example_runner example_config) example_schedulers 3 3
                (example_info [[[1, 1]]]) (example_info [[[0, 0]]]))) = []"
proof -
  have h: "is_save_step (cfg (example_runner example_config)) 0"
    "\<not> app_opt (cfg (example_runner example_config))"
    "use_shading (cfg (example_runner example_config))"
    "splats (example_runner example_config) = example_splats"
    "\<not> is_save_step (cfg (example_runner example_config)) 3"
    by (simp_all add: example_runner_def example_config_def is_save_step_def)
  have g: "is_save_step (cfg example_app_runner) 0"
    "app_opt (cfg example_app_runner)"
    "app_module example_app_runner = Some [(''embeds'', Mat [[0]])]"
    "splats example_app_runner = example_splats"
    by (simp_all add: example_app_runner_def example_runner_def example_config_def
        is_save_step_def)
  have a1: "app_opt (cfg (example_runner example_config))
            \<longrightarrow> app_module (example_runner example_config) = Some []"
    using h(2) by simp
  have a2: "app_opt (cfg example_app_runner)
            \<longrightarrow> app_module example_app_runner = Some [(''embeds'', Mat [[0]])]"
    using g(3) by simp
  from checkpoint_albedo_only [OF a1, of example_schedulers 0 0 "example_info [[[1, 1]]]"
      "example_info [[[0, 0]]]"]
  have t1: "filter is_ckpt
        (fst (train_step (example_runner example_config) example_schedulers 0 0
                (example_info [[[1, 1]]]) (example_info [[[0, 0]]])))
      = [SaveCheckpoint [(''step'', StepValue 0),
                         (''splats'', StateDict (state_dict example_splats))]]"
    using h by simp
  from checkpoint_albedo_only [OF a1, of example_schedulers 3 3 "example_info [[[1, 1]]]"
      "example_info [[[0, 0]]]"]
  have t3: "filter is_ckpt
        (fst (train_step (example_runner example_config) example_schedulers 3 3
                (example_info [[[1, 1]]]) (example_info [[[0, 0]]]))) = []"
    using h by simp
  from checkpoint_albedo_only [OF a2, of example_schedulers 0 0 "example_info [[[1, 1]]]"
      "example_info [[[0, 0]]]"]
  have t2: "filter is_ckpt
        (fst (train_step example_app_runner example_schedulers 0 0
                (example_info [[[1, 1]]]) (example_info [[[0, 0]]])))
      = [SaveCheckpoint [(''step'', StepValue 0),
                         (''splats'', StateDict (state_dict example_splats)),
                         (''app_module'', StateDict [(''embeds'', Mat [[0]])])]]"
    using g by simp
  show ?thesis using h g t1 t2 t3 by simp
qed

text \<open>
  C3 as stated fails: with shading enabled, the checkpoint of a save step holds the
  albedo population and not the shading population.
\<close>

theorem checkpoint_omits_shading:
  "use_shading (cfg (example_runner example_config))
   \<and> is_save_step (cfg (example_runner example_config)) 0
   \<and> shading_splats (example_runner example_config)
       = Some (example_shading_splats \<lparr> time_anisos := Some [[0, 0, 0]] \<rparr>)
   \<and> checkpoint_data (example_runner example_config) 0
       = Inr [(''step'', StepValue 0), (''splats'', StateDict (state_dict example_splats))]
   \<and> ckpt_holds_population
         [(''step'', StepValue 0), (''splats'', StateDict (state_dict example_splats))]
         example_splats
   \<and> \<not> ckpt_holds_population
         [(''step'', StepValue 0), (''splats'', StateDict (state_dict example_splats))]
         (example_shading_splats \<lparr> time_anisos := Some [[0, 0, 0]] \<rparr>)"
  by (simp add: example_runner_def example_config_def is_save_step_def checkpoint_data_def
      ckpt_holds_population_def state_dict_def example_splats_def example_shading_splats_def)

section \<open>The visibility mask of the shading optimizers\<close>

text \<open>
  C2: with \<^verbatim>\<open>visible_adam\<close> and shading, the albedo primitive is visible (radii 1, 1)
  and the shading primitive is not (radii 0, 0). Every optimizer of the shading
  population is stepped with the mask \<open>[True]\<close> computed from the albedo statistics;
  the mask of the shading population's own radii is \<open>[False]\<close>.
\<close>

theorem shading_optimizers_get_albedo_mask:
  "filter is_shading_step
     (fst (train_step (example_runner example_config) example_schedulers 0 0
             (example_info [[[1, 1]]]) (example_info [[[0, 0]]])))
   = map (\<lambda>name. OptimizerStep Shading name (Some [True]))
       [''means'', ''scales'', ''quats'', ''opacities'', ''times'', ''time_scales'', ''colors'',
        ''time_anisos'']
   \<and> visibility_mask (example_runner example_config) (example_info [[[1, 1]]]) = Inr (Some [True])
   \<and> visibility_mask
        ((example_runner example_config)
           \<lparr> splats := example_shading_splats \<lparr> time_anisos := Some [[0, 0, 0]] \<rparr> \<rparr>)
        (example_info [[[0, 0]]]) = Inr (Some [False])"
  by (simp add: train_step_def Let_def seq_def emit_def abort_def example_runner_def
      example_config_def save_checkpoint_def is_save_step_def checkpoint_data_def
      sparse_gradients_def visibility_mask_def step_post_backward_def example_schedulers_def
      example_info_def any0_def optimize_def optimize_aux_def example_optimizers_def
      optimizer_class_of_def is_shading_step_def)

section \<open>Dispatch on the density-control variant\<close>

text \<open>
  C6: the state of the shading controller is initialised by the branch of the primary
  strategy. With a threshold primary and a relocation shading strategy the relocation
  controller is called with the \<^verbatim>\<open>scene_scale\<close> keyword of the threshold branch, which the
  library's signature rejects; with the variants swapped the threshold controller is
  called without its \<^verbatim>\<open>scene_scale\<close>.
\<close>

theorem shading_state_dispatch_on_primary:
  "shading_strategy_state_call
     (example_config \<lparr> strategy := DefaultStrategy, shading_strategy := MCMCStrategy \<rparr>)
   = (MCMCStrategy, Some scene_scale)
   \<and> shading_strategy_state_call
     (example_config \<lparr> strategy := MCMCStrategy, shading_strategy := DefaultStrategy \<rparr>)
   = (DefaultStrategy, None)
   \<and> Runner_init gsplat
       (example_config \<lparr> strategy := DefaultStrategy, shading_strategy := MCMCStrategy \<rparr>)
       example_splats example_shading_splats
     = Inl (TypeError ''initialize_state() got an unexpected keyword argument scene_scale'')"
  by (simp add: Runner_init_def init_controllers_def gsplat_def example_config_def example_splats_def
      example_shading_splats_def create_splats_with_optimizers_def params_def
      optimizer_class_of_def bind_def keys_def
      state_dict_def strategy_state_call_def shading_strategy_state_call_def)

section \<open>Construction and the sparse-gradient assertion\<close>

lemma bind_Inr_iff: "bind m f = Inr r \<longleftrightarrow> (\<exists>v. m = Inr v \<and> f v = Inr r)"
  by (cases m) (simp_all add: bind_def)

lemma bind_Inl_iff: "bind m f = Inl e \<longleftrightarrow> m = Inl e \<or> (\<exists>v. m = Inr v \<and> f v = Inl e)"
  by (cases m) (simp_all add: bind_def)

lemma isl_bind: "isl (bind m f) \<longleftrightarrow> isl m \<or> (\<exists>v. m = Inr v \<and> isl (f v))"
  by (cases m) (simp_all add: bind_def)

lemma Runner_init_Inr:
  assumes "Runner_init lib c d ds = Inr r"
  shows "cfg r = c" and "\<not> app_opt c"
    and "optimizers r = snd (create_splats_with_optimizers c scene_scale False d)"
    and "shading_optimizers r
         = (if use_shading c then snd (create_splats_with_optimizers c scene_scale True ds) else [])"
    and "shading_splats r
         = (if use_shading c then Some (fst (create_splats_with_optimizers c scene_scale True ds))
            else None)"
    and "use_bilagrid c \<Longrightarrow> bil_grid_optimizers r \<noteq> []"
    and "compression_strategy c = Inr (compression_method r)"
  using assms
  by (auto simp: Runner_init_def init_controllers_def bind_Inr_iff Let_def
      split: prod.splits if_splits)

lemma lookup_means_created:
  "lookup_optimizer (snd (create_splats_with_optimizers c sc False d)) ''means''
   = Inr \<lparr> opt_class = optimizer_class_of c, opt_name = ''means'', opt_lr = means_lr c * sc \<rparr>"
  by (simp add: create_splats_with_optimizers_def params_def lookup_optimizer_def)

lemma make_schedulers_after_init:
  assumes "Runner_init lib c d ds = Inr r" and "max_steps c \<noteq> 0"
  shows "\<exists>scheds. make_schedulers r = Inr scheds"
proof -
  note ri = Runner_init_Inr [OF assms(1)]
  have "bil_grid_optimizers r \<noteq> []" if "use_bilagrid c"
    using ri(6) that by simp
  then show ?thesis
    using assms(2)
    by (cases "bil_grid_optimizers r")
      (auto simp: make_schedulers_def bind_def ri(1,3) lookup_means_created decay_gamma_def)
qed

lemma train_step_sparse_abort:
  assumes "sparse_grad (cfg r)" and "\<not> packed (cfg r)" and "\<not> app_opt (cfg r)"
  shows "train_step r scheds n k info shading_info
       = ([StepPreBackward Albedo info]
            @ (if use_shading (cfg r) then [StepPreBackward Shading shading_info] else [])
            @ [Backward] @ fst (save_checkpoint r k),
          Some (AssertionError ''Sparse gradients only work with packed mode.''))"
  using assms
  by (simp add: train_step_def Let_def seq_def emit_def abort_def sparse_gradients_def
      save_checkpoint_def checkpoint_data_def)

lemma snd_seq_Some: "snd (seq a b) = Some e \<Longrightarrow> snd a = Some e \<or> snd b = Some e"
  by (auto simp: seq_def split: option.splits)

lemma step_post_backward_error:
  "snd (step_post_backward p s c scheds e i) = Some x \<Longrightarrow> x = IndexError"
  by (auto simp: step_post_backward_def split: strategy.splits list.splits)

lemma save_checkpoint_error:
  "snd (save_checkpoint r k) = Some x \<Longrightarrow> x = AttributeError ''app_module''"
  by (auto simp: save_checkpoint_def checkpoint_data_def Let_def
      split: if_splits sum.splits option.splits)

lemma sparse_gradients_error:
  "snd (sparse_gradients c) = Some x \<Longrightarrow> sparse_grad c \<and> \<not> packed c"
  by (auto simp: sparse_gradients_def split: if_splits)

lemma visibility_mask_error:
  "visibility_mask r i = Inl x
   \<Longrightarrow> x = TypeError ''gaussian_ids'' \<or> x = RuntimeError ''index out of bounds''"
  by (auto simp: visibility_mask_def Let_def split: if_splits option.splits)

lemma seq_not_error:
  "snd a \<noteq> Some e \<Longrightarrow> snd b \<noteq> Some e \<Longrightarrow> snd (seq a b) \<noteq> Some e"
  by (auto simp: seq_def split: option.splits)

lemma train_step_no_assertion:
  assumes "sparse_grad (cfg r) \<longrightarrow> packed (cfg r)"
  shows "snd (train_step r scheds n k info shading_info) \<noteq> Some (AssertionError m)"
proof -
  let ?c = "cfg r"
  have 1: "snd (save_checkpoint r k) \<noteq> Some (AssertionError m)"
    using save_checkpoint_error [of r k] by auto
  have 2: "snd (sparse_gradients ?c) \<noteq> Some (AssertionError m)"
    using sparse_gradients_error [of ?c] assms by auto
  have 3: "snd (step_post_backward p s ?c scheds e i) \<noteq> Some (AssertionError m)" for p s e i
    using step_post_backward_error [of p s ?c scheds e i] by auto
  have 4: "visibility_mask r info \<noteq> Inl (AssertionError m)"
    using visibility_mask_error [of r info] by auto
  show ?thesis
  proof (cases "visibility_mask r info")
    case (Inl x)
    with 4 have "x \<noteq> AssertionError m" by auto
    then show ?thesis
      unfolding train_step_def Let_def Inl
      by (intro seq_not_error) (simp_all add: 1 2)
  next
    case (Inr vm)
    show ?thesis
      unfolding train_step_def Let_def Inr
      by (intro seq_not_error) (simp_all add: 1 2 3 seq_not_error)
  qed
qed

lemma train_loop_no_assertion:
  assumes "sparse_grad (cfg r) \<longrightarrow> packed (cfg r)"
  shows "snd (train_loop r scheds env k n) \<noteq> Some (AssertionError m)"
proof (induction n arbitrary: k)
  case 0
  show ?case by simp
next
  case (Suc n)
  have "snd (train_step (r \<lparr> splats := env_splats (env k),
                          shading_splats := env_shading_splats (env k) \<rparr>)
            scheds k k (env_info (env k)) (env_shading_info (env k)))
        \<noteq> Some (AssertionError m)"
    by (rule train_step_no_assertion) (simp add: assms)
  with Suc.IH [of "Suc k"] show ?case
    by (simp add: seq_not_error)
qed

lemma create_splats_packed [simp]:
  "create_splats_with_optimizers (c \<lparr> packed := p \<rparr>) sc sh d
   = create_splats_with_optimizers c sc sh d"
  by (simp add: create_splats_with_optimizers_def params_def optimizer_class_of_def)

lemma init_calls_packed [simp]:
  "strategy_state_call (c \<lparr> packed := p \<rparr>) = strategy_state_call c"
  "shading_strategy_state_call (c \<lparr> packed := p \<rparr>) = shading_strategy_state_call c"
  "compression_strategy (c \<lparr> packed := p \<rparr>) = compression_strategy c"
  by (simp_all add: strategy_state_call_def shading_strategy_state_call_def
      compression_strategy_def split: strategy.splits)

lemma make_schedulers_error:
  "make_schedulers r = Inl x \<Longrightarrow> x = KeyError ''means'' \<or> x = ZeroDivisionError \<or> x = IndexError"
  by (auto simp: make_schedulers_def bind_Inl_iff lookup_optimizer_def decay_gamma_def
      split: option.splits if_splits list.splits)

lemma init_controllers_packed [simp]:
  "init_controllers lib (c \<lparr> packed := p \<rparr>) d ds = init_controllers lib c d ds"
  by (simp add: init_controllers_def)

lemma Runner_init_packed:
  "isl (Runner_init lib (c \<lparr> packed := p \<rparr>) d ds) = isl (Runner_init lib c d ds)"
  by (cases "init_controllers lib c d ds")
    (simp_all add: Runner_init_def bind_def split: prod.splits sum.splits)

lemma example_runner_init_flags:
  "Runner_init gsplat (example_config \<lparr> packed := p, sparse_grad := sg \<rparr>)
     example_splats example_shading_splats
   = Inr (example_runner (example_config \<lparr> packed := p, sparse_grad := sg \<rparr>))"
  by (simp add: Runner_init_def init_controllers_def gsplat_def example_config_def example_splats_def
      example_shading_splats_def example_runner_def example_optimizers_def
      create_splats_with_optimizers_def params_def optimizer_class_of_def bind_def keys_def
      state_dict_def strategy_state_call_def shading_strategy_state_call_def
      compression_strategy_def)

text \<open>
  C7: for a configuration with sparse gradients whose runner was constructed and that
  trains at least one step: without packed mode the run ends in the first iteration with
  the assertion \<^verbatim>\<open>Sparse gradients only work with packed mode.\<close>, after one backward pass
  and before any optimizer step or scheduler advance; with packed mode no iteration ever
  raises that assertion; and construction succeeds whatever \<^verbatim>\<open>packed\<close> is.
\<close>

theorem sparse_grad_requires_packed:
  assumes "Runner_init lib c d ds = Inr r" and "ckpt c = None" and "sparse_grad c"
  shows "(\<not> packed c \<and> 0 < max_steps c \<longrightarrow>
            snd (main lib c d ds env)
              = Some (AssertionError ''Sparse gradients only work with packed mode.'')
          \<and> filter is_update (fst (main lib c d ds env)) = []
          \<and> filter (\<lambda>e. e = Backward) (fst (main lib c d ds env)) = [Backward])
       \<and> (packed c \<longrightarrow>
            snd (main lib c d ds env)
              \<noteq> Some (AssertionError ''Sparse gradients only work with packed mode.''))
       \<and> \<not> isl (Runner_init lib (c \<lparr> packed := False \<rparr>) d ds)"
proof -
  note ri = Runner_init_Inr [OF assms(1)]
  let ?e = "AssertionError ''Sparse gradients only work with packed mode.''"
  have c3: "\<not> isl (Runner_init lib (c \<lparr> packed := False \<rparr>) d ds)"
    by (simp add: Runner_init_packed assms(1))
  have c2: "snd (main lib c d ds env) \<noteq> Some ?e" if "packed c"
  proof -
    have "sparse_grad (cfg r) \<longrightarrow> packed (cfg r)" using that by (simp add: ri(1))
    from train_loop_no_assertion [OF this]
    show ?thesis
      by (cases "make_schedulers r")
        (auto simp: main_def assms(1,2) train_def dest: make_schedulers_error)
  qed
  have c1: "snd (main lib c d ds env) = Some ?e
          \<and> filter is_update (fst (main lib c d ds env)) = []
          \<and> filter (\<lambda>e. e = Backward) (fst (main lib c d ds env)) = [Backward]"
    if np: "\<not> packed c \<and> 0 < max_steps c"
  proof -
    obtain scheds where ms: "make_schedulers r = Inr scheds"
      using make_schedulers_after_init [OF assms(1)] np by auto
    obtain n where n: "nat (max_steps c) = Suc n"
      using np by (cases "nat (max_steps c)") auto
    let ?r = "r \<lparr> splats := env_splats (env 0), shading_splats := env_shading_splats (env 0) \<rparr>"
    let ?pre = "[StepPreBackward Albedo (env_info (env 0))]
            @ (if use_shading (cfg ?r) then [StepPreBackward Shading (env_shading_info (env 0))]
               else [])
            @ [Backward] @ fst (save_checkpoint ?r 0)"
    have st: "train_step ?r scheds 0 0 (env_info (env 0)) (env_shading_info (env 0))
         = (?pre, Some ?e)"
      by (rule train_step_sparse_abort) (use np assms(3) ri(1,2) in simp_all)
    have "train_loop r scheds env 0 (Suc n) = (?pre, Some ?e)"
      by (simp add: st seq_def)
    then have m: "main lib c d ds env = (?pre, Some ?e)"
      by (simp add: main_def assms(1,2) train_def ms ri(1) n)
    have "filter (\<lambda>e. e = Backward) (fst (save_checkpoint ?r 0)) = []"
      by (simp add: save_checkpoint_def split: sum.splits)
    then show ?thesis
      unfolding m by (simp add: save_checkpoint_no_update)
  qed
  show ?thesis using c1 c2 c3 by blast
qed

theorem sparse_grad_requires_packed_witness:
  "Runner_init gsplat (example_config \<lparr> packed := False, sparse_grad := True \<rparr>)
     example_splats example_shading_splats
   = Inr (example_runner (example_config \<lparr> packed := False, sparse_grad := True \<rparr>))
   \<and> ckpt (example_config \<lparr> packed := False, sparse_grad := True \<rparr>) = None
   \<and> sparse_grad (example_config \<lparr> packed := False, sparse_grad := True \<rparr>)
   \<and> \<not> packed (example_config \<lparr> packed := False, sparse_grad := True \<rparr>)
   \<and> 0 < max_steps (example_config \<lparr> packed := False, sparse_grad := True \<rparr>)
   \<and> snd (main gsplat (example_config \<lparr> packed := False, sparse_grad := True \<rparr>)
           example_splats example_shading_splats example_env)
       = Some (AssertionError ''Sparse gradients only work with packed mode.'')
   \<and> packed (example_config \<lparr> packed := True, sparse_grad := True \<rparr>)
   \<and> snd (main gsplat (example_config \<lparr> packed := True, sparse_grad := True \<rparr>)
           example_splats example_shading_splats example_env)
       \<noteq> Some (AssertionError ''Sparse gradients only work with packed mode.'')"
proof -
  have h: "ckpt (example_config \<lparr> packed := p, sparse_grad := True \<rparr>) = None"
    "sparse_grad (example_config \<lparr> packed := p, sparse_grad := True \<rparr>)"
    "0 < max_steps (example_config \<lparr> packed := p, sparse_grad := True \<rparr>)" for p
    by (simp_all add: example_config_def)
  from sparse_grad_requires_packed [OF example_runner_init_flags h(1,2), of False example_env]
    sparse_grad_requires_packed [OF example_runner_init_flags h(1,2), of True example_env]
  show ?thesis
    using h example_runner_init_flags [where p = False and sg = True] by simp
qed

section \<open>The compression codec\<close>

lemma create_splats_compression [simp]:
  "create_splats_with_optimizers (c \<lparr> compression := x \<rparr>) sc sh d
   = create_splats_with_optimizers c sc sh d"
  by (simp add: create_splats_with_optimizers_def params_def optimizer_class_of_def)

lemma init_calls_compression [simp]:
  "strategy_state_call (c \<lparr> compression := x \<rparr>) = strategy_state_call c"
  "shading_strategy_state_call (c \<lparr> compression := x \<rparr>) = shading_strategy_state_call c"
  by (simp_all add: strategy_state_call_def shading_strategy_state_call_def
      split: strategy.splits)

lemma init_controllers_compression [simp]:
  "init_controllers lib (c \<lparr> compression := x \<rparr>) d ds = init_controllers lib c d ds"
  by (simp add: init_controllers_def)

lemma compression_strategy_disabled [simp]:
  "compression_strategy (c \<lparr> compression := None \<rparr>) = Inr None"
  by (simp add: compression_strategy_def)

lemma main_init_failed: "Runner_init lib c d ds = Inl e \<Longrightarrow> main lib c d ds env = ([], Some e)"
  by (simp add: main_def abort_def)

text \<open>
  C8: a codec name other than \<^verbatim>\<open>png\<close> makes \<^verbatim>\<open>Runner.__init__\<close> fail, so that \<^verbatim>\<open>main\<close>
  ends with that error and without any training event; the error is the
  \<^verbatim>\<open>ValueError\<close> of the codec check whenever construction would succeed with compression
  disabled. With \<^verbatim>\<open>png\<close> the check yields the PNG codec and construction fails exactly
  when it would fail with compression disabled; with no codec the check yields none.
\<close>

theorem unknown_compression_fatal:
  "(compression c = Some name \<and> name \<noteq> ''png'' \<longrightarrow>
      compression_strategy c = Inl (ValueError (''Unknown compression strategy: '' @ name))
      \<and> (\<exists>e. Runner_init lib c d ds = Inl e \<and> main lib c d ds env = ([], Some e))
      \<and> (\<not> isl (Runner_init lib (c \<lparr> compression := None \<rparr>) d ds) \<longrightarrow>
            Runner_init lib c d ds
              = Inl (ValueError (''Unknown compression strategy: '' @ name))))
   \<and> (compression c = Some ''png'' \<longrightarrow>
        compression_strategy c = Inr (Some PngCompression)
        \<and> isl (Runner_init lib c d ds)
            = isl (Runner_init lib (c \<lparr> compression := None \<rparr>) d ds))
   \<and> (compression c = None \<longrightarrow> compression_strategy c = Inr None)"
proof (intro conjI impI)
  assume a: "compression c = Some name \<and> name \<noteq> ''png''"
  then show cs: "compression_strategy c
      = Inl (ValueError (''Unknown compression strategy: '' @ name))"
    by (simp add: compression_strategy_def)
  have "isl (Runner_init lib c d ds)"
    by (cases "init_controllers lib c d ds")
      (simp_all add: Runner_init_def bind_def cs split: prod.splits)
  then obtain e where e: "Runner_init lib c d ds = Inl e"
    by (cases "Runner_init lib c d ds") auto
  then show "\<exists>e. Runner_init lib c d ds = Inl e \<and> main lib c d ds env = ([], Some e)"
    by (simp add: main_init_failed)
  assume "\<not> isl (Runner_init lib (c \<lparr> compression := None \<rparr>) d ds)"
  then show "Runner_init lib c d ds
              = Inl (ValueError (''Unknown compression strategy: '' @ name))"
    by (cases "init_controllers lib c d ds")
      (simp_all add: Runner_init_def bind_def cs split: prod.splits)
next
  assume a: "compression c = Some ''png''"
  then show cs: "compression_strategy c = Inr (Some PngCompression)"
    by (simp add: compression_strategy_def)
  show "isl (Runner_init lib c d ds)
            = isl (Runner_init lib (c \<lparr> compression := None \<rparr>) d ds)"
    by (cases "init_controllers lib c d ds")
      (simp_all add: Runner_init_def bind_def cs split: prod.splits)
next
  assume "compression c = None"
  then show "compression_strategy c = Inr None"
    by (simp add: compression_strategy_def)
qed

theorem unknown_compression_fatal_witness:
  "compression (example_config \<lparr> compression := Some ''jpeg'' \<rparr>) = Some ''jpeg''
   \<and> ''jpeg'' \<noteq> ''png''
   \<and> \<not> isl (Runner_init gsplat example_config example_splats example_shading_splats)
   \<and> Runner_init gsplat (example_config \<lparr> compression := Some ''jpeg'' \<rparr>)
        example_splats example_shading_splats
      = Inl (ValueError ''Unknown compression strategy: jpeg'')
   \<and> main gsplat (example_config \<lparr> compression := Some ''jpeg'' \<rparr>)
        example_splats example_shading_splats example_env
      = ([], Some (ValueError ''Unknown compression strategy: jpeg''))
   \<and> compression (example_config \<lparr> compression := Some ''png'' \<rparr>) = Some ''png''
   \<and> \<not> isl (Runner_init gsplat (example_config \<lparr> compression := Some ''png'' \<rparr>)
        example_splats example_shading_splats)"
proof -
  have h: "compression (example_config \<lparr> compression := x \<rparr>) = x" for x
    by simp
  have n: "example_config \<lparr> compression := x, compression := None \<rparr> = example_config" for x
    by (simp add: example_config_def)
  have ok: "\<not> isl (Runner_init gsplat example_config example_splats example_shading_splats)"
    by (simp add: example_runner_init)
  from unknown_compression_fatal [of "example_config \<lparr> compression := Some ''jpeg'' \<rparr>"
      "''jpeg''" gsplat example_splats example_shading_splats example_env]
    unknown_compression_fatal [of "example_config \<lparr> compression := Some ''png'' \<rparr>"
      "''png''" gsplat example_splats example_shading_splats example_env]
  show ?thesis
    using ok by (auto simp: n)
qed

section \<open>Learning-rate schedules\<close>

lemma decay_reaches_one_percent:
  assumes "0 < n"
  shows "((1 / 100) powr (1 / real_of_int n)) ^ nat n = (1 / 100 :: real)"
proof -
  have "((1 / 100 :: real) powr (1 / real_of_int n)) ^ nat n
      = ((1 / 100) powr (1 / real_of_int n)) powr real (nat n)"
    by (simp add: powr_realpow)
  also have "\<dots> = (1 / 100) powr (1 / real_of_int n * real (nat n))"
    by (simp add: powr_powr)
  also have "1 / real_of_int n * real (nat n) = 1"
    using assms by simp
  finally show ?thesis by simp
qed

text \<open>
  C9: for a positive \<^verbatim>\<open>max_steps\<close> the first schedule is exponential on the \<^verbatim>\<open>means\<close>
  optimizer with factor \<open>0.01 powr (1 / max_steps)\<close> per advance, so after \<^verbatim>\<open>max_steps\<close>
  advances the rate is one hundredth of the initial rate; with the bilateral grid the
  second schedule chains a linear warm-up from factor 0.01 over 1000 steps with an
  exponential decay of the same factor; without it there is no second schedule.
\<close>

theorem means_lr_schedule:
  assumes "make_schedulers r = Inr scheds" and "0 < max_steps (cfg r)"
  shows "\<exists>m g. lookup_optimizer (optimizers r) ''means'' = Inr m
      \<and> g = (1 / 100) powr (1 / real_of_int (max_steps (cfg r)))
      \<and> hd scheds = \<lparr> sched_optimizer = m, sched_kind = ExponentialLR g \<rparr>
      \<and> (\<forall>k. get_last_lr (hd scheds) (Suc k) = get_last_lr (hd scheds) k * g)
      \<and> get_last_lr (hd scheds) 0 = opt_lr m
      \<and> get_last_lr (hd scheds) (nat (max_steps (cfg r))) = opt_lr m / 100
      \<and> (use_bilagrid (cfg r) \<longrightarrow>
            (\<exists>b rest. bil_grid_optimizers r = b # rest
               \<and> scheds = [hd scheds,
                    \<lparr> sched_optimizer = b,
                      sched_kind = ChainedScheduler [LinearLR (1 / 100) 1000, ExponentialLR g] \<rparr>]
               \<and> (\<forall>k. get_last_lr (scheds ! 1) k
                     = opt_lr b * ((1 / 100 + 99 / 100 * real (min k 1000) / 1000) * g ^ k))))
      \<and> (\<not> use_bilagrid (cfg r) \<longrightarrow> scheds = [hd scheds])"
proof -
  let ?g = "(1 / 100) powr (1 / real_of_int (max_steps (cfg r)))"
  from assms(1) obtain m where m: "lookup_optimizer (optimizers r) ''means'' = Inr m"
    and rest: "(if use_bilagrid (cfg r)
          then (case bil_grid_optimizers r of
             [] \<Rightarrow> Inl IndexError
           | b # _ \<Rightarrow>
               Inr [\<lparr> sched_optimizer = m, sched_kind = ExponentialLR ?g \<rparr>,
                    \<lparr> sched_optimizer = b,
                      sched_kind = ChainedScheduler [LinearLR (1 / 100) 1000, ExponentialLR ?g] \<rparr>])
          else Inr [\<lparr> sched_optimizer = m, sched_kind = ExponentialLR ?g \<rparr>]) = Inr scheds"
    using assms(2)
    by (auto simp: make_schedulers_def bind_Inr_iff decay_gamma_def split: if_splits)
  have hd: "hd scheds = \<lparr> sched_optimizer = m, sched_kind = ExponentialLR ?g \<rparr>"
    using rest by (auto split: if_splits list.splits)
  have bil: "\<exists>b rest. bil_grid_optimizers r = b # rest
               \<and> scheds = [hd scheds,
                    \<lparr> sched_optimizer = b,
                      sched_kind = ChainedScheduler [LinearLR (1 / 100) 1000, ExponentialLR ?g] \<rparr>]
               \<and> (\<forall>k. get_last_lr (scheds ! 1) k
                     = opt_lr b * ((1 / 100 + 99 / 100 * real (min k 1000) / 1000) * ?g ^ k))"
    if "use_bilagrid (cfg r)"
    using rest that by (auto simp: get_last_lr_def split: list.splits)
  have nobil: "scheds = [hd scheds]" if "\<not> use_bilagrid (cfg r)"
    using rest that by auto
  have last: "get_last_lr (hd scheds) (nat (max_steps (cfg r))) = opt_lr m / 100"
    by (simp add: hd get_last_lr_def decay_reaches_one_percent [OF assms(2)])
  show ?thesis
    apply (rule exI [of _ m], rule exI [of _ ?g])
    apply (intro conjI impI allI)
           apply (rule m)
          apply (rule refl)
         apply (rule hd)
        apply (simp add: hd get_last_lr_def)
       apply (simp add: hd get_last_lr_def)
      apply (rule last)
     apply (erule bil)
    apply (erule nobil)
    done
qed

theorem means_lr_schedule_witness:
  "make_schedulers (example_runner example_config) = Inr example_schedulers
   \<and> 0 < max_steps (cfg (example_runner example_config))
   \<and> use_bilagrid (cfg (example_runner example_config))
   \<and> get_last_lr (hd example_schedulers) 0 = 16 / 100000 * scene_scale
   \<and> get_last_lr (hd example_schedulers) 2 = 16 / 100000 * scene_scale / 100
   \<and> get_last_lr (example_schedulers ! 1) 0 = 2 / 1000 * (1 / 100)"
proof -
  have h: "0 < max_steps (cfg (example_runner example_config))"
    and b: "use_bilagrid (cfg (example_runner example_config))"
    and ms: "nat (max_steps (cfg (example_runner example_config))) = 2"
    and lk: "lookup_optimizer (optimizers (example_runner example_config)) ''means''
             = Inr \<lparr> opt_class = SelectiveAdam, opt_name = ''means'',
                     opt_lr = 16 / 100000 * scene_scale \<rparr>"
    and bg: "bil_grid_optimizers (example_runner example_config)
             = [\<lparr> opt_class = Adam, opt_name = ''bil_grids'', opt_lr = 2 / 1000 \<rparr>]"
    by (simp_all add: example_runner_def example_config_def lookup_optimizer_def
        example_optimizers_def optimizer_class_of_def)
  from means_lr_schedule [OF example_make_schedulers h] obtain m g where
    m: "lookup_optimizer (optimizers (example_runner example_config)) ''means'' = Inr m"
    and l0: "get_last_lr (hd example_schedulers) 0 = opt_lr m"
    and ln: "get_last_lr (hd example_schedulers)
               (nat (max_steps (cfg (example_runner example_config)))) = opt_lr m / 100"
    and bl: "use_bilagrid (cfg (example_runner example_config)) \<longrightarrow>
            (\<exists>b rest. bil_grid_optimizers (example_runner example_config) = b # rest
               \<and> example_schedulers = [hd example_schedulers,
                    \<lparr> sched_optimizer = b,
                      sched_kind = ChainedScheduler [LinearLR (1 / 100) 1000, ExponentialLR g] \<rparr>]
               \<and> (\<forall>k. get_last_lr (example_schedulers ! 1) k
                     = opt_lr b * ((1 / 100 + 99 / 100 * real (min k 1000) / 1000) * g ^ k)))"
    by blast
  from m lk have mm: "opt_lr m = 16 / 100000 * scene_scale" by auto
  from bl b obtain bb rest where
    bb: "bil_grid_optimizers (example_runner example_config) = bb # rest"
    and k: "\<forall>k. get_last_lr (example_schedulers ! 1) k
                     = opt_lr bb * ((1 / 100 + 99 / 100 * real (min k 1000) / 1000) * g ^ k)"
    by blast
  from bb bg have "opt_lr bb = 2 / 1000" by auto
  with k [rule_format, of 0]
  have k0: "get_last_lr (example_schedulers ! 1) 0 = 2 / 1000 * (1 / 100)" by simp
  show ?thesis
    using example_make_schedulers h b l0 ln k0 by (simp add: mm ms)
qed

section \<open>Shading composition in training and in evaluation\<close>

text \<open>
  C10: on one pixel, training multiplies every albedo channel by the shading value
  \<open>s\<close>, evaluation by \<open>s + 1 * (1 - a)\<close> with the shading coverage \<open>a\<close>; for a pixel
  with coverage below 1 the two results differ, also after the clamp of the evaluation.
\<close>

theorem shading_composite_differs:
  "train_shading_composite [[r, g, b]] [[s]] = Inr [[r * s, g * s, b * s]]
   \<and> eval_shading_composite [[r, g, b]] [[s]] [[a]]
       = Inr [[r * (s + 1 * (1 - a)), g * (s + 1 * (1 - a)), b * (s + 1 * (1 - a))]]
   \<and> (\<exists>cols sh al x y. list_all (list_all (\<lambda>a. a < 1)) al
         \<and> train_shading_composite cols sh = Inr x
         \<and> eval_shading_composite cols sh al = Inr y
         \<and> x \<noteq> y \<and> clamp_colors x \<noteq> clamp_colors y)"
proof (intro conjI)
  show t: "train_shading_composite [[r, g, b]] [[s]] = Inr [[r * s, g * s, b * s]]" for r g b s
    by (simp add: train_shading_composite_def broadcast_rows_def broadcast_def)
  show e: "eval_shading_composite [[r, g, b]] [[s]] [[a]]
       = Inr [[r * (s + 1 * (1 - a)), g * (s + 1 * (1 - a)), b * (s + 1 * (1 - a))]]"
    for r g b s a
    by (simp add: eval_shading_composite_def broadcast_rows_def broadcast_def bind_def)
  show "\<exists>cols sh al x y. list_all (list_all (\<lambda>a. a < 1)) al
         \<and> train_shading_composite cols sh = Inr x
         \<and> eval_shading_composite cols sh al = Inr y
         \<and> x \<noteq> y \<and> clamp_colors x \<noteq> clamp_colors y"
    apply (rule exI [of _ "[[1 / 2, 1 / 2, 1 / 2]]"], rule exI [of _ "[[1 / 2]]"],
        rule exI [of _ "[[1 / 2]]"])
    apply (rule exI [of _ "[[1 / 4, 1 / 4, 1 / 4]]"], rule exI [of _ "[[1 / 2, 1 / 2, 1 / 2]]"])
    apply (simp add: t e clamp_colors_def)
    done
qed

section \<open>The anisotropic time coupling\<close>

lemma Runner_init_splats:
  assumes "Runner_init lib c d ds = Inr r"
  shows "splats r = fst (create_splats_with_optimizers c scene_scale False d)"
  using assms
  by (auto simp: Runner_init_def init_controllers_def bind_Inr_iff Let_def
      split: prod.splits if_splits)

lemma optimize_step_mem:
  "opt \<in> set os \<Longrightarrow> OptimizerStep p (opt_name opt) m \<in> set (optimize p os m)"
  by (auto simp: optimize_def)

text \<open>
  C4: what \<^verbatim>\<open>rasterize_splats\<close> hands to the rasterizer does not depend on
  \<^verbatim>\<open>time_anisos\<close>; for well-shaped temporal arrays the visibility factor is the diagonal
  kernel of the raw deltas divided by \<open>exp(logTimeScale)\<close>, whatever \<^verbatim>\<open>time_anisos\<close> holds.
  Yet a runner constructed with shading has zero-initialised \<^verbatim>\<open>time_anisos\<close> in the
  shading population only, with an optimizer of that name, and every iteration that
  runs to its end steps that optimizer.
\<close>

theorem time_anisos_inactive:
  "rasterize_splats_args app (s \<lparr> time_anisos := a \<rparr>) ts = rasterize_splats_args app s ts
   \<and> (length (times_p s) = length (time_scales s)
        \<and> list_all (\<lambda>m. length m = length ts) (times_p s)
        \<and> list_all (\<lambda>l. length l = length ts) (time_scales s) \<longrightarrow>
        time_alpha (s \<lparr> time_anisos := a \<rparr>) ts
          = Inr (map2 (\<lambda>m ls. exp (- 0.5 * (\<Sum>j<length ts. ((ts ! j - m ! j) / exp (ls ! j))\<^sup>2)))
                   (times_p s) (time_scales s)))
   \<and> (Runner_init lib c d ds = Inr r \<and> use_shading c \<longrightarrow>
        time_anisos (splats r) = None
        \<and> (\<exists>ss. shading_splats r = Some ss
              \<and> time_anisos ss = Some (replicate (length (means ds)) [0, 0, 0]))
        \<and> ''time_anisos'' \<in> set (map opt_name (shading_optimizers r))
        \<and> ''time_anisos'' \<notin> set (map opt_name (optimizers r))
        \<and> (snd (train_step r scheds n k info shading_info) = None \<longrightarrow>
             (\<exists>vm. OptimizerStep Shading ''time_anisos'' vm
                    \<in> set (fst (train_step r scheds n k info shading_info)))))"
proof (intro conjI impI)
  show "rasterize_splats_args app (s \<lparr> time_anisos := a \<rparr>) ts = rasterize_splats_args app s ts"
    by (simp add: rasterize_splats_args_def time_alpha_def cong: sum.case_cong if_cong)
next
  assume "length (times_p s) = length (time_scales s)
        \<and> list_all (\<lambda>m. length m = length ts) (times_p s)
        \<and> list_all (\<lambda>l. length l = length ts) (time_scales s)"
  then show "time_alpha (s \<lparr> time_anisos := a \<rparr>) ts
          = Inr (map2 (\<lambda>m ls. exp (- 0.5 * (\<Sum>j<length ts. ((ts ! j - m ! j) / exp (ls ! j))\<^sup>2)))
                   (times_p s) (time_scales s))"
    using time_alpha_rect [of "s \<lparr> time_anisos := a \<rparr>" ts]
    by (simp add: list_all_iff)
next
  assume a: "Runner_init lib c d ds = Inr r \<and> use_shading c"
  then have ri: "Runner_init lib c d ds = Inr r" and us: "use_shading c" by simp_all
  note f = Runner_init_Inr [OF ri]
  show "time_anisos (splats r) = None"
    by (simp add: Runner_init_splats [OF ri] create_splats_with_optimizers_def)
  show "\<exists>ss. shading_splats r = Some ss
              \<and> time_anisos ss = Some (replicate (length (means ds)) [0, 0, 0])"
    by (simp add: f(5) us create_splats_with_optimizers_def numeral_3_eq_3)
  show so: "''time_anisos'' \<in> set (map opt_name (shading_optimizers r))"
    by (simp add: f(4) us create_splats_with_optimizers_def params_def)
  show "''time_anisos'' \<notin> set (map opt_name (optimizers r))"
    by (simp add: f(3) create_splats_with_optimizers_def params_def)
  assume ok: "snd (train_step r scheds n k info shading_info) = None"
  from so obtain opt where opt: "opt \<in> set (shading_optimizers r)"
    and nm: "opt_name opt = ''time_anisos''" by auto
  from train_step_success [OF ok] obtain vm where
    tr: "fst (train_step r scheds n k info shading_info) =
          ([StepPreBackward Albedo info]
            @ (if use_shading (cfg r) then [StepPreBackward Shading shading_info] else [])
            @ [Backward])
          @ fst (save_checkpoint r k)
          @ fst (sparse_gradients (cfg r))
          @ update_events r scheds vm
          @ fst (step_post_backward Albedo (strategy (cfg r)) (cfg r) scheds (Suc n) info)
          @ (if use_shading (cfg r)
             then fst (step_post_backward Shading (shading_strategy (cfg r)) (cfg r) scheds
                         (Suc n) shading_info)
             else [])"
    by blast
  have "OptimizerStep Shading ''time_anisos'' vm \<in> set (update_events r scheds vm)"
    using optimize_step_mem [OF opt, of Shading vm] us
    by (simp add: update_events_def f(1) nm)
  then have "OptimizerStep Shading ''time_anisos'' vm
      \<in> set (fst (train_step r scheds n k info shading_info))"
    unfolding tr by simp
  then show "\<exists>vm. OptimizerStep Shading ''time_anisos'' vm
                    \<in> set (fst (train_step r scheds n k info shading_info))" ..
qed

theorem time_anisos_inactive_witness:
  "length (times_p example_shading_splats) = length (time_scales example_shading_splats)
   \<and> list_all (\<lambda>m. length m = length [0, 0, 0 :: real]) (times_p example_shading_splats)
   \<and> list_all (\<lambda>l. length l = length [0, 0, 0 :: real]) (time_scales example_shading_splats)
   \<and> time_alpha (example_shading_splats \<lparr> time_anisos := Some [[1, 2, 3]] \<rparr>) [0, 0, 0] = Inr [1]
   \<and> Runner_init gsplat example_config example_splats example_shading_splats
       = Inr (example_runner example_config)
   \<and> use_shading example_config
   \<and> snd (train_step (example_runner example_config) example_schedulers 0 0
          (example_info [[[1, 1]]]) (example_info [[[0, 0]]])) = None
   \<and> (\<exists>vm. OptimizerStep Shading ''time_anisos'' vm
          \<in> set (fst (train_step (example_runner example_config) example_schedulers 0 0
                         (example_info [[[1, 1]]]) (example_info [[[0, 0]]]))))"
proof -
  have h: "length (times_p example_shading_splats) = length (time_scales example_shading_splats)"
    "list_all (\<lambda>m. length m = length [0, 0, 0 :: real]) (times_p example_shading_splats)"
    "list_all (\<lambda>l. length l = length [0, 0, 0 :: real]) (time_scales example_shading_splats)"
    and us: "use_shading example_config"
    by (simp_all add: example_shading_splats_def example_config_def)
  from time_anisos_inactive [where app = False and s = example_shading_splats
      and a = "Some [[1, 2, 3]]" and ts = "[0, 0, 0]" and lib = gsplat and c = example_config
      and d = example_splats and ds = example_shading_splats
      and r = "example_runner example_config" and scheds = example_schedulers
      and n = 0 and k = 0 and info = "example_info [[[1, 1]]]"
      and shading_info = "example_info [[[0, 0]]]"]
  have ta: "time_alpha (example_shading_splats \<lparr> time_anisos := Some [[1, 2, 3]] \<rparr>) [0, 0, 0]
          = Inr (map2 (\<lambda>m ls. exp (- 0.5 * (\<Sum>j<length [0, 0, 0 :: real].
                    (([0, 0, 0] ! j - m ! j) / exp (ls ! j))\<^sup>2)))
                   (times_p example_shading_splats) (time_scales example_shading_splats))"
    and st: "\<exists>vm. OptimizerStep Shading ''time_anisos'' vm
          \<in> set (fst (train_step (example_runner example_config) example_schedulers 0 0
                         (example_info [[[1, 1]]]) (example_info [[[0, 0]]])))"
    using h us example_runner_init example_train_step_ok by blast+
  have "time_alpha (example_shading_splats \<lparr> time_anisos := Some [[1, 2, 3]] \<rparr>) [0, 0, 0]
        = Inr [1]"
    unfolding ta by (simp add: example_shading_splats_def lessThan_Suc numeral_3_eq_3 nth_Cons')
  then show ?thesis
    using h us example_runner_init example_train_step_ok st by simp
qed

end
